theory Spec2Isabelle
  imports Complex_Main "HOL-Library.Word" "HOL-Library.AList"
begin

section \<open>The waveform (ECG) viewport\<close>

subsection \<open>Rendering constants\<close>

definition SECONDS_WIDTH :: real where
  "SECONDS_WIDTH = 150"

definition CHANNEL_SPACING :: real where
  "CHANNEL_SPACING = 5"

subsection \<open>Channels and their cached extrema\<close>

text \<open>
  An \<open>Int16Array\<close> is a list of 16-bit words read as signed values (\<open>sint\<close>).
\<close>

type_synonym Int16Array = "16 word list"

text \<open>
  \<open>computeMinMax\<close>: both accumulators start at 0; each element first lowers \<open>min\<close>,
  then raises \<open>max\<close>.
\<close>

definition computeMinMax_step :: "16 word \<Rightarrow> int \<times> int \<Rightarrow> int \<times> int" where
  "computeMinMax_step d acc =
     (let mn = (if sint d < fst acc then sint d else fst acc);
          mx = (if sint d > snd acc then sint d else snd acc)
      in (mn, mx))"

definition computeMinMax :: "Int16Array \<Rightarrow> int \<times> int" where
  "computeMinMax data = fold computeMinMax_step data (0, 0)"

subsection \<open>Viewport state\<close>

text \<open>
  JavaScript numbers are modelled as reals (integers where the source only ever holds
  integers): the arithmetic of the model is exact, and the rounding of the source's
  double-precision operations is not modelled. A division by zero does not raise in
  JavaScript: it yields \<open>NaN\<close> or an infinity. Wherever a divisor of the source can be
  zero the model says so: a pan vector whose components are not finite is \<open>None\<close>, and
  a coordinate transform whose result has a component that is not a finite number
  returns \<open>Inl NonFinite\<close>.
\<close>

datatype error =
    NoWaveformData
  | NoDataSource
  | TypeError
  | NonFinite
  | Destroyed
  | GPUNotAvailable
  | UnsupportedViewportType

record ECGChannel =
  name :: string
  data :: Int16Array
  visible :: bool
  min_cached :: int
  max_cached :: int

text \<open>
  The \<open>channels\<close> member of the waveform data is the very array held in the viewport's
  \<open>channels\<close> field, so it is not repeated here.
\<close>

record ECGWaveformData =
  numberOfChannels :: nat
  numberOfSamples :: nat
  samplingFrequency :: real
  bitsAllocated :: nat
  sampleInterpretation :: string
  multiplexGroupLabel :: string

record Canvas =
  width :: int
  height :: int
  clientWidth :: int
  clientHeight :: int
  offsetWidth :: int
  offsetHeight :: int
  rectWidth :: real
  rectHeight :: real
  aspectRatio :: "(int \<times> int) option"

record ECGViewport =
  imageId :: "string option"
  channels :: "ECGChannel list"
  waveformData :: "ECGWaveformData option"
  ecgWidth :: real
  ecgHeight :: real
  channelScale :: real
  panWorld :: "(real \<times> real) option"
  parallelScale :: real
  canvas :: Canvas

record ChannelLayout =
  channel :: ECGChannel
  itemHeight :: real
  yOffset :: real
  baseline :: real

definition amplitudeRange :: "ECGChannel \<Rightarrow> real" where
  "amplitudeRange ch = real_of_int (max_cached ch - min_cached ch)"

subsection \<open>Scale and height\<close>

definition visibleChannels :: "ECGChannel list \<Rightarrow> ECGChannel list" where
  "visibleChannels cs = filter (\<lambda>c. visible c \<and> length (data c) > 0) cs"

definition canvasAspect :: "Canvas \<Rightarrow> real" where
  "canvasAspect cv =
     (if offsetHeight cv \<noteq> 0 \<and> offsetWidth cv \<noteq> 0
      then real_of_int (offsetHeight cv) / real_of_int (offsetWidth cv)
      else 2 / 3)"

definition computeChannelScale :: "ECGViewport \<Rightarrow> ECGViewport" where
  "computeChannelScale vp =
     (let vis = visibleChannels (channels vp) in
      if length vis = 0 \<or> ecgWidth vp = 0 then vp\<lparr>channelScale := 0\<rparr>
      else
        let maxRange = fold (\<lambda>ch m. max m (amplitudeRange ch)) vis 1;
            targetTotalHeight = ecgWidth vp * canvasAspect (canvas vp);
            totalSpacing = CHANNEL_SPACING * real (length vis);
            heightPerChannel = (targetTotalHeight - totalSpacing) / real (length vis)
        in vp\<lparr>channelScale := heightPerChannel / (maxRange * 1.25)\<rparr>)"

definition recalculateHeight_step :: "real \<Rightarrow> ECGChannel \<Rightarrow> real \<Rightarrow> real" where
  "recalculateHeight_step scale ch totalHeight =
     (if \<not> visible ch \<or> length (data ch) = 0 then totalHeight
      else totalHeight + (amplitudeRange ch * scale * 1.25 + CHANNEL_SPACING))"

definition recalculateHeight :: "ECGViewport \<Rightarrow> ECGViewport" where
  "recalculateHeight vp =
     vp\<lparr>ecgHeight := fold (recalculateHeight_step (channelScale vp)) (channels vp) 0\<rparr>"

fun layoutsFrom :: "real \<Rightarrow> real \<Rightarrow> ECGChannel list \<Rightarrow> ChannelLayout list" where
  "layoutsFrom scale y [] = []"
| "layoutsFrom scale y (ch # chs) =
     (if \<not> visible ch \<or> length (data ch) = 0 then layoutsFrom scale y chs
      else
        let ih = amplitudeRange ch * scale * 1.25;
            y' = y + (ih + CHANNEL_SPACING);
            bl = y' + real_of_int (min_cached ch) * scale
        in \<lparr>channel = ch, itemHeight = ih, yOffset = y', baseline = bl\<rparr>
           # layoutsFrom scale y' chs)"

definition computeChannelLayouts :: "ECGViewport \<Rightarrow> ChannelLayout list" where
  "computeChannelLayouts vp = layoutsFrom (channelScale vp) 0 (channels vp)"

definition refreshRenderValues :: "ECGViewport \<Rightarrow> ECGViewport" where
  "refreshRenderValues vp =
     (if ecgWidth vp = 0 \<or> ecgHeight vp = 0 then vp
      else
        let ow = real_of_int (offsetWidth (canvas vp));
            oh = real_of_int (offsetHeight (canvas vp));
            r0 = ow / ecgWidth vp;
            worldToCanvasRatio = (if ecgHeight vp * r0 > oh then oh / ecgHeight vp else r0);
            drawWidth = real_of_int \<lfloor>ecgWidth vp * worldToCanvasRatio\<rfloor>;
            drawHeight = real_of_int \<lfloor>ecgHeight vp * worldToCanvasRatio\<rfloor>;
            xOffsetCanvas = (ow - drawWidth) / 2;
            yOffsetCanvas = (oh - drawHeight) / 2
        in vp\<lparr>panWorld :=
                 (if worldToCanvasRatio = 0 then None
                  else Some (xOffsetCanvas / worldToCanvasRatio,
                             yOffsetCanvas / worldToCanvasRatio)),
               parallelScale := worldToCanvasRatio\<rparr>)"

text \<open>
  After recomputing scale, height and camera the source calls \<open>renderFrame\<close>, which
  paints the canvas and emits the rendered event; it assigns none of the fields above.
\<close>

definition relayout :: "ECGViewport \<Rightarrow> ECGViewport" where
  "relayout vp = refreshRenderValues (recalculateHeight (computeChannelScale vp))"

definition setChannelVisibility :: "int \<Rightarrow> bool \<Rightarrow> ECGViewport \<Rightarrow> ECGViewport" where
  "setChannelVisibility index v vp =
     (if index \<ge> 0 \<and> index < int (length (channels vp))
      then relayout (vp\<lparr>channels :=
             (channels vp)[nat index := (channels vp ! nat index)\<lparr>visible := v\<rparr>]\<rparr>)
      else vp)"

subsection \<open>Coordinate transforms\<close>

text \<open>
  Both transforms take the layouts from \<open>computeChannelLayouts\<close>, one for every visible
  channel with data, and read the third coordinate as a position in that list.

  The band lookup of \<open>canvasToWorld\<close>: \<open>z\<close> starts at 0; the first layout whose
  \<open>yOffset\<close> is not above the point wins, and the last layout takes everything below.
\<close>

fun bandLoop :: "real \<Rightarrow> ChannelLayout list \<Rightarrow> nat \<Rightarrow> nat" where
  "bandLoop y [] i = 0"
| "bandLoop y (l # ls) i =
     (if y \<le> yOffset l then i
      else if ls = [] then i
      else bandLoop y ls (Suc i))"

text \<open>
  The sample index \<open>max(0, min(n - 1, sx * n / ecgWidth))\<close>. With a zero width the
  quotient is an infinity (clamped by \<open>min\<close> and \<open>max\<close>) or \<open>NaN\<close> (kept, here \<open>None\<close>).
\<close>

definition sampleIndexOf :: "nat \<Rightarrow> real \<Rightarrow> real \<Rightarrow> real option" where
  "sampleIndexOf n w sx =
     (let num = sx * real n in
      if w = 0 then
        (if num > 0 then Some (max 0 (real n - 1))
         else if num < 0 then Some 0
         else None)
      else Some (max 0 (min (real n - 1) (num / w))))"

definition canvasToWorld :: "ECGViewport \<Rightarrow> real \<times> real \<Rightarrow> error + (real \<times> real \<times> real)" where
  "canvasToWorld vp canvasPos =
     (case waveformData vp of
        None \<Rightarrow> Inr (0, 0, 0)
      | Some wd \<Rightarrow>
          let scale = parallelScale vp;
              layouts = computeChannelLayouts vp
          in if layouts = [] then Inl TypeError
             else if scale = 0 then Inl NonFinite
             else (case panWorld vp of
                     None \<Rightarrow> Inl NonFinite
                   | Some pan \<Rightarrow>
                       let sx = fst canvasPos / scale - fst pan;
                           sy = snd canvasPos / scale - snd pan;
                           z = bandLoop sy layouts 0;
                           layout = layouts ! z
                       in if channelScale vp = 0 then Inl NonFinite
                          else (case sampleIndexOf (numberOfSamples wd) (ecgWidth vp) sx of
                                  None \<Rightarrow> Inl NonFinite
                                | Some x \<Rightarrow>
                                    Inr (x, (baseline layout - sy) / channelScale vp, real z))))"

definition worldToCanvas :: "ECGViewport \<Rightarrow> real \<times> real \<times> real \<Rightarrow> error + (real \<times> real)" where
  "worldToCanvas vp worldPos =
     (case waveformData vp of
        None \<Rightarrow> Inr (0, 0)
      | Some wd \<Rightarrow>
          let scale = parallelScale vp;
              layouts = computeChannelLayouts vp;
              z = round (snd (snd worldPos))
          in if z < 0 \<or> z \<ge> int (length layouts) then Inr (0, 0)
             else (case panWorld vp of
                     None \<Rightarrow> Inl NonFinite
                   | Some pan \<Rightarrow>
                       if numberOfSamples wd = 0 then Inl NonFinite
                       else
                         let layout = layouts ! nat z;
                             canvasX = (fst worldPos / real (numberOfSamples wd))
                                         * ecgWidth vp * scale + fst pan * scale;
                             canvasY = (baseline layout - fst (snd worldPos) * channelScale vp)
                                         * scale + snd pan * scale
                         in Inr (canvasX, canvasY)))"

subsection \<open>Retrieving the samples\<close>

text \<open>
  \<open>convertBuffer\<close>: channel \<open>c\<close> takes the little-endian 16-bit samples at byte
  positions \<open>2c, 2c + 2n, 2c + 4n, \<dots>\<close> below \<open>min(data.length, 2 * n * samples)\<close>; the rest
  of its buffer keeps the initial zeros. A byte read past the end is \<open>undefined\<close>, which the
  shifts and masks treat as 0. Any other format gives no channel at all.
\<close>

definition byteAt :: "8 word list \<Rightarrow> nat \<Rightarrow> 8 word" where
  "byteAt bytes i = (if i < length bytes then bytes ! i else 0)"

definition convertBuffer :: "8 word list \<Rightarrow> nat \<Rightarrow> nat \<Rightarrow> nat \<Rightarrow> string \<Rightarrow> Int16Array list" where
  "convertBuffer bytes nChannels nSamples bits type =
     (if bits = 16 \<and> type = ''SS'' then
        (let totalBytes = 2 * nChannels * nSamples;
             len = min (length bytes) totalBytes
         in map (\<lambda>ch.
                  map (\<lambda>k. let sample = 2 * ch + 2 * nChannels * k
                           in if sample < len
                              then (word_cat (byteAt bytes (sample + 1)) (byteAt bytes sample) :: 16 word)
                              else 0)
                      [0..<nSamples])
                [0..<nChannels])
      else [])"

text \<open>
  The \<open>WaveformData\<close> element handed to \<open>makeRetrieveBulkData\<close>. Base64 decoding, the
  client's own retrieval function and the HTTP fetch (with its multipart unwrapping) are
  host services: \<open>atob\<close> and \<open>fetchBytes\<close> are parameters, and \<open>retrieveBulkDataFn\<close> holds
  the bytes the client function resolves to when that property is a function.
\<close>

record WaveformDataObj =
  Value :: "Int16Array list option"
  InlineBinary :: "string option"
  retrieveBulkDataFn :: "8 word list option"
  BulkDataURI :: "string option"

definition truthy :: "string option \<Rightarrow> bool" where
  "truthy s = (case s of None \<Rightarrow> False | Some x \<Rightarrow> x \<noteq> [])"

definition bulkDataUrl :: "string \<Rightarrow> string option \<Rightarrow> string option \<Rightarrow> string" where
  "bulkDataUrl url wadoRsRoot studyUID =
     (if CHR '':'' \<notin> set url \<and> truthy wadoRsRoot
      then (if truthy studyUID
            then the wadoRsRoot @ ''/studies/'' @ the studyUID @ ''/'' @ url
            else the wadoRsRoot @ ''/'' @ url)
      else url)"

definition makeRetrieveBulkData ::
  "(string \<Rightarrow> 8 word list) \<Rightarrow> (string \<Rightarrow> 8 word list) \<Rightarrow> WaveformDataObj
     \<Rightarrow> nat \<Rightarrow> nat \<Rightarrow> nat \<Rightarrow> string \<Rightarrow> string option \<Rightarrow> string option
     \<Rightarrow> error + Int16Array list" where
  "makeRetrieveBulkData atob fetchBytes wfd nChannels nSamples bits interp wadoRsRoot studyUID =
     (case Value wfd of
        Some v \<Rightarrow> Inr v
      | None \<Rightarrow>
          if truthy (InlineBinary wfd)
          then Inr (convertBuffer (atob (the (InlineBinary wfd))) nChannels nSamples bits interp)
          else (case retrieveBulkDataFn wfd of
                  Some bulkdata \<Rightarrow> Inr (convertBuffer bulkdata nChannels nSamples bits interp)
                | None \<Rightarrow>
                    if truthy (BulkDataURI wfd)
                    then Inr (convertBuffer
                                (fetchBytes (bulkDataUrl (the (BulkDataURI wfd)) wadoRsRoot studyUID))
                                nChannels nSamples bits interp)
                    else Inl NoDataSource))"

subsection \<open>Loading\<close>

text \<open>
  What the metadata provider returns for the ECG module of an image id.
  \<open>retrieveBulkData\<close> is \<open>None\<close> when the module has no such function, and otherwise
  the outcome of awaiting it.
\<close>

record ChannelDefinition =
  codeMeaning :: "string option"
  CodeMeaning :: "string option"

record EcgModule =
  numberOfWaveformChannels :: nat
  numberOfWaveformSamples :: nat
  moduleSamplingFrequency :: real
  waveformBitsAllocated :: "nat option"
  waveformSampleInterpretation :: "string option"
  moduleMultiplexGroupLabel :: string
  channelDefinitionSequence :: "ChannelDefinition list option"
  retrieveBulkData :: "(error + Int16Array list) option"

fun string_of_nat :: "nat \<Rightarrow> string" where
  "string_of_nat n =
     (if n < 10 then [char_of (48 + n)]
      else string_of_nat (n div 10) @ [char_of (48 + n mod 10)])"

definition channelName :: "ChannelDefinition list \<Rightarrow> nat \<Rightarrow> string" where
  "channelName defs i =
     (let lower = (if i < length defs then codeMeaning (defs ! i) else None);
          upper = (if i < length defs then CodeMeaning (defs ! i) else None)
      in if truthy lower then the lower
         else if truthy upper then the upper
         else ''Channel '' @ string_of_nat (i + 1))"

definition buildChannel :: "ChannelDefinition list \<Rightarrow> Int16Array list \<Rightarrow> nat \<Rightarrow> ECGChannel" where
  "buildChannel defs channelArrays i =
     (let d = (if i < length channelArrays then channelArrays ! i else []);
          mm = computeMinMax d
      in \<lparr>name = channelName defs i, data = d, visible = True,
          min_cached = fst mm, max_cached = snd mm\<rparr>)"

text \<open>
  \<open>setEcg\<close> returns the error it throws, if any, together with the viewport as the call
  leaves it. The image id is assigned first. A zero sampling frequency makes the content
  width an infinity or \<open>NaN\<close>: the source throws nothing there and goes on to lay out
  and paint with that width. The model has no such width; it marks that outcome
  \<open>NonFinite\<close> and does not follow it further. The calibration looked up for the
  measurement tools is an opaque value of the metadata provider and is not part of the
  state modelled here.
\<close>

definition setEcg :: "string \<Rightarrow> EcgModule option \<Rightarrow> ECGViewport \<Rightarrow> error option \<times> ECGViewport" where
  "setEcg newImageId ecgModule vp =
     (let vp1 = vp\<lparr>imageId := Some newImageId\<rparr> in
      case ecgModule of
        None \<Rightarrow> (Some NoWaveformData, vp1)
      | Some m \<Rightarrow>
          (case retrieveBulkData m of
             None \<Rightarrow> (Some NoWaveformData, vp1)
           | Some (Inl e) \<Rightarrow> (Some e, vp1)
           | Some (Inr channelArrays) \<Rightarrow>
               let defs = (case channelDefinitionSequence m of None \<Rightarrow> [] | Some ds \<Rightarrow> ds);
                   vp2 = vp1\<lparr>channels :=
                           map (buildChannel defs channelArrays) [0..<numberOfWaveformChannels m],
                         waveformData := Some
                           \<lparr>numberOfChannels = numberOfWaveformChannels m,
                            numberOfSamples = numberOfWaveformSamples m,
                            samplingFrequency = moduleSamplingFrequency m,
                            bitsAllocated =
                              (case waveformBitsAllocated m of None \<Rightarrow> 16 | Some b \<Rightarrow> b),
                            sampleInterpretation =
                              (case waveformSampleInterpretation m of None \<Rightarrow> ''SS'' | Some t \<Rightarrow> t),
                            multiplexGroupLabel = moduleMultiplexGroupLabel m\<rparr>\<rparr>
               in if moduleSamplingFrequency m = 0 then (Some NonFinite, vp2)
                  else
                    (None,
                     relayout (vp2\<lparr>ecgWidth := real_of_int
                        \<lceil>real (numberOfWaveformSamples m) * SECONDS_WIDTH
                           / moduleSamplingFrequency m\<rceil>\<rparr>))))"

text \<open>
  A viewport is laid out when its scale and content height are the ones the layout
  functions compute from its present channels, width and canvas, as they are after a load
  or a visibility change.
\<close>

definition laidOut :: "ECGViewport \<Rightarrow> bool" where
  "laidOut vp \<longleftrightarrow>
     channelScale vp = channelScale (computeChannelScale vp)
     \<and> ecgHeight vp = ecgHeight (recalculateHeight vp)"

subsection \<open>Example viewports\<close>

text \<open>
  A two-channel recording with ranges \<open>[0, 900]\<close> and \<open>[-900, 0]\<close> loaded into a
  300 by 200 canvas; the same viewport after \<open>setChannelVisibility(0, false)\<close>; and a
  module whose waveform element has no data source.
\<close>

definition exampleCanvas :: Canvas where
  "exampleCanvas = \<lparr>width = 300, height = 200, clientWidth = 300, clientHeight = 200,
     offsetWidth = 300, offsetHeight = 200, rectWidth = 300, rectHeight = 200,
     aspectRatio = None\<rparr>"

definition emptyViewport :: ECGViewport where
  "emptyViewport = \<lparr>imageId = None, channels = [], waveformData = None, ecgWidth = 0,
     ecgHeight = 0, channelScale = 0, panWorld = Some (0, 0), parallelScale = 1,
     canvas = exampleCanvas\<rparr>"

definition exampleModule :: EcgModule where
  "exampleModule = \<lparr>numberOfWaveformChannels = 2, numberOfWaveformSamples = 2,
     moduleSamplingFrequency = 10, waveformBitsAllocated = None,
     waveformSampleInterpretation = None, moduleMultiplexGroupLabel = ''ECG'',
     channelDefinitionSequence = None,
     retrieveBulkData = Some (Inr [[0, 900], [- 900, 0]])\<rparr>"

definition exampleViewport :: ECGViewport where
  "exampleViewport = snd (setEcg ''ecg:example'' (Some exampleModule) emptyViewport)"

definition hiddenFirstViewport :: ECGViewport where
  "hiddenFirstViewport = setChannelVisibility 0 False exampleViewport"

definition noSource :: WaveformDataObj where
  "noSource = \<lparr>Value = None, InlineBinary = None, retrieveBulkDataFn = None,
     BulkDataURI = None\<rparr>"

definition noSourceModule :: EcgModule where
  "noSourceModule = exampleModule\<lparr>retrieveBulkData :=
     Some (makeRetrieveBulkData (\<lambda>s. []) (\<lambda>u. []) noSource 2 2 16 ''SS'' None None)\<rparr>"

section \<open>The context-pool rendering engine\<close>

subsection \<open>Viewports, renderers and the pool\<close>

datatype ViewportType = STACK | ORTHOGRAPHIC | PERSPECTIVE | VOLUME_3D | ECG

text \<open>
  Modelled from the spec: \<open>viewportTypeUsesCustomRenderingPipeline\<close> is not among the
  sources. The waveform viewport declares \<open>useCustomRenderingPipeline\<close>; the kinds that
  \<open>addVtkjsDrivenViewport\<close> constructs use the GPU pipeline.
\<close>

definition viewportTypeUsesCustomRenderingPipeline :: "ViewportType \<Rightarrow> bool" where
  "viewportTypeUsesCustomRenderingPipeline t = (t = ECG)"

text \<open>
  A vtk renderer as far as the engine drives it: the upper corner of its normalised
  rectangle (the lower corner is always the origin) and its draw flag. A corner
  component that is not a finite number is \<open>None\<close>.
\<close>

record Renderer =
  xEnd :: "real option"
  yEnd :: "real option"
  draw :: bool

text \<open>
  Modelled from the spec: the viewport classes are not among the sources. The camera is
  the state that \<open>getCamera\<close> reads and \<open>setCamera\<close> writes; \<open>getRotation\<close> and
  \<open>setViewPresentation\<close> read and write its rotation; \<open>getDisplayArea\<close> tells whether a
  display-area fit exists. Each widget of a viewport owns its renderer, if it has one.
\<close>

record Camera =
  flipHorizontal :: bool
  rotation :: real
  cameraPan :: "real \<times> real"
  cameraZoom :: real

datatype ViewportStatus = NO_DATA | LOADING | PRE_RENDER | RESIZE | RENDERED

record IViewport =
  viewportId :: string
  viewportType :: ViewportType
  viewportCanvas :: Canvas
  sx :: int
  sy :: int
  sWidth :: int
  sHeight :: int
  suppressEvents :: bool
  viewportStatus :: ViewportStatus
  camera :: Camera
  displayArea :: bool
  widgets :: "Renderer option list"

text \<open>
  One pool entry: the sub-renderers of the offscreen multi render window by id, and the
  size of the container its offscreen canvas follows.
\<close>

record ContextData =
  renderers :: "(string \<times> Renderer) list"
  containerWidth :: int
  containerHeight :: int

text \<open>
  A context index is a number; the remainder by zero is \<open>NaN\<close>.
\<close>

datatype contextIndex = Index nat | NaN

text \<open>
  Modelled from the spec: \<open>WebGLContextPool\<close> is not among the sources. It owns the
  fixed collection of contexts, maps each viewport id to a context index, remembers the
  last requested size of each viewport, and takes as a context's maximum size the
  component-wise maximum over the viewports assigned to it; \<open>updateViewportSize\<close>
  reports whether that maximum changed.
\<close>

record WebGLContextPool =
  contexts :: "ContextData list"
  viewportToContext :: "(string \<times> contextIndex) list"
  viewportSizes :: "(string \<times> int \<times> int) list"

definition getAllContexts :: "WebGLContextPool \<Rightarrow> ContextData list" where
  "getAllContexts pool = contexts pool"

definition assignViewportToContext :: "string \<Rightarrow> contextIndex \<Rightarrow> WebGLContextPool \<Rightarrow> WebGLContextPool" where
  "assignViewportToContext vid ci pool =
     pool\<lparr>viewportToContext := AList.update vid ci (viewportToContext pool)\<rparr>"

definition getContextIndexForViewport :: "WebGLContextPool \<Rightarrow> string \<Rightarrow> contextIndex option" where
  "getContextIndexForViewport pool vid = map_of (viewportToContext pool) vid"

definition getContextByIndex :: "WebGLContextPool \<Rightarrow> contextIndex option \<Rightarrow> ContextData option" where
  "getContextByIndex pool ci =
     (case ci of
        Some (Index i) \<Rightarrow> (if i < length (contexts pool) then Some (contexts pool ! i) else None)
      | _ \<Rightarrow> None)"

definition getMaxSizeForContext :: "WebGLContextPool \<Rightarrow> contextIndex option \<Rightarrow> int \<times> int" where
  "getMaxSizeForContext pool ci =
     (case ci of
        Some (Index i) \<Rightarrow>
          fold (\<lambda>(vid, c) (mw, mh).
                  if c = Index i
                  then (case map_of (viewportSizes pool) vid of
                          None \<Rightarrow> (mw, mh)
                        | Some (w, h) \<Rightarrow> (max mw w, max mh h))
                  else (mw, mh))
               (viewportToContext pool) (0, 0)
      | _ \<Rightarrow> (0, 0))"

definition updateViewportSize :: "string \<Rightarrow> int \<Rightarrow> int \<Rightarrow> WebGLContextPool \<Rightarrow> bool \<times> WebGLContextPool" where
  "updateViewportSize vid w h pool =
     (case getContextIndexForViewport pool vid of
        None \<Rightarrow> (False, pool)
      | Some ci \<Rightarrow>
          let pool' = pool\<lparr>viewportSizes := AList.update vid (w, h) (viewportSizes pool)\<rparr>
          in (getMaxSizeForContext pool' (Some ci) \<noteq> getMaxSizeForContext pool (Some ci), pool'))"

definition setContext :: "nat \<Rightarrow> ContextData \<Rightarrow> WebGLContextPool \<Rightarrow> WebGLContextPool" where
  "setContext i cd pool = pool\<lparr>contexts := (contexts pool)[i := cd]\<rparr>"

subsection \<open>Engine state and outward effects\<close>

text \<open>
  What the engine does to its collaborators, in the order it does it: warnings, custom
  renders, resizes of an offscreen canvas, draws of a render window (with the ids of the
  sub-renderers and the owners and positions of the widget renderers whose draw flag is
  set at that moment), changes of an on-screen canvas, copies into it, and events.
\<close>

datatype effect =
    Warn string
  | CustomRender string
  | OffscreenResize nat int int
  | RenderWindowRender nat "string list" "(string \<times> nat) list"
  | CanvasResize string int int
  | DrawImage string int int int int
  | ImageRendered string
  | ElementEnabled string

text \<open>
  Modelled from the spec: \<open>BaseRenderingEngine\<close> is not among the sources. It holds the
  viewports by id in insertion order, the render-dirty set, the frame flag and handle,
  the destroyed and CPU-rendering flags, and exports \<open>VIEWPORT_MIN_SIZE\<close>, whose value is a
  parameter here. \<open>devicePixelRatio\<close> is the window's.
\<close>

record RenderingEngine =
  viewports :: "(string \<times> IViewport) list"
  needsRender :: "string set"
  animationFrameSet :: bool
  animationFrameHandle :: "nat option"
  hasBeenDestroyed :: bool
  useCPURendering :: bool
  contextPool :: WebGLContextPool
  VIEWPORT_MIN_SIZE :: int
  devicePixelRatio :: real
  effects :: "effect list"

type_synonym 'a outcome = "(error + 'a) \<times> RenderingEngine"

definition andThen :: "'a outcome \<Rightarrow> ('a \<Rightarrow> RenderingEngine \<Rightarrow> 'b outcome) \<Rightarrow> 'b outcome" where
  "andThen r f = (case r of (Inl e, st) \<Rightarrow> (Inl e, st) | (Inr x, st) \<Rightarrow> f x st)"

definition emit :: "effect \<Rightarrow> RenderingEngine \<Rightarrow> RenderingEngine" where
  "emit e st = st\<lparr>effects := effects st @ [e]\<rparr>"

definition getViewport :: "RenderingEngine \<Rightarrow> string \<Rightarrow> IViewport option" where
  "getViewport st vid = map_of (viewports st) vid"

definition setViewport :: "IViewport \<Rightarrow> RenderingEngine \<Rightarrow> RenderingEngine" where
  "setViewport vp st = st\<lparr>viewports := AList.update (viewportId vp) vp (viewports st)\<rparr>"

definition pixelRatio :: "RenderingEngine \<Rightarrow> real" where
  "pixelRatio st = (if devicePixelRatio st = 0 then 1 else devicePixelRatio st)"

subsection \<open>On-screen canvas\<close>

definition updateCanvasSizeAndAspectRatio ::
  "real \<Rightarrow> Canvas \<Rightarrow> (int \<times> int) option \<Rightarrow> bool option \<times> Canvas" where
  "updateCanvasSizeAndAspectRatio dpr cv extentOrOffscreen =
     (case extentOrOffscreen of
        None \<Rightarrow>
          let w = round (rectWidth cv * dpr);
              h = round (rectHeight cv * dpr)
          in if w > 0 \<and> h > 0
             then (None, cv\<lparr>width := w, height := h, aspectRatio := Some (w, h)\<rparr>)
             else (None, cv)
      | Some (targetW, targetH) \<Rightarrow>
          if targetW < 1 \<or> targetH < 1 then (Some False, cv)
          else if width cv \<noteq> targetW \<or> height cv \<noteq> targetH
          then (Some True, cv\<lparr>width := targetW, height := targetH,
                              aspectRatio := Some (targetW, targetH)\<rparr>)
          else (Some False, cv))"

subsection \<open>Enabling a viewport\<close>

record InternalViewportInput =
  inputViewportId :: string
  inputType :: ViewportType
  inputCanvas :: Canvas
  inputSuppressEvents :: bool

definition defaultCamera :: Camera where
  "defaultCamera = \<lparr>flipHorizontal = False, rotation = 0, cameraPan = (0, 0), cameraZoom = 1\<rparr>"

definition newRenderer :: Renderer where
  "newRenderer = \<lparr>xEnd = Some 1, yEnd = Some 1, draw = True\<rparr>"

definition addRenderer :: "string \<Rightarrow> ContextData \<Rightarrow> ContextData" where
  "addRenderer vid cd = cd\<lparr>renderers := AList.update vid newRenderer (renderers cd)\<rparr>"

definition getRenderer :: "ContextData \<Rightarrow> string \<Rightarrow> Renderer option" where
  "getRenderer cd vid = map_of (renderers cd) vid"

text \<open>
  \<open>addVtkjsDrivenViewport\<close>: a stack viewport takes the context numbered by the present
  number of viewports modulo the number of contexts, every other kind context 0. The
  assignment, the size and the renderer are in place before the kind is checked.
\<close>

definition addVtkjsDrivenViewport :: "InternalViewportInput \<Rightarrow> RenderingEngine \<Rightarrow> unit outcome" where
  "addVtkjsDrivenViewport entry st =
     (let vid = inputViewportId entry;
          t = inputType entry;
          cv = inputCanvas entry;
          pool = contextPool st;
          contextIndex =
            (if t = STACK
             then (let n = length (getAllContexts pool)
                   in if n = 0 then NaN else Index (length (viewports st) mod n))
             else Index 0);
          pool1 = assignViewportToContext vid contextIndex pool;
          pool2 = snd (updateViewportSize vid (width cv) (height cv) pool1)
      in case (contextIndex, getContextByIndex pool2 (Some contextIndex)) of
           (Index i, Some contextData) \<Rightarrow>
             let maxSize = getMaxSizeForContext pool2 (Some contextIndex);
                 cd = addRenderer vid
                        (contextData\<lparr>containerWidth := fst maxSize,
                                      containerHeight := snd maxSize\<rparr>);
                 st1 = emit (OffscreenResize i (fst maxSize) (snd maxSize))
                         (st\<lparr>contextPool := setContext i cd pool2\<rparr>)
             in if t = STACK \<or> t = ORTHOGRAPHIC \<or> t = PERSPECTIVE \<or> t = VOLUME_3D
                then
                  let viewport =
                        \<lparr>viewportId = vid, viewportType = t, viewportCanvas = cv,
                         sx = 0, sy = 0, sWidth = width cv, sHeight = height cv,
                         suppressEvents = inputSuppressEvents entry,
                         viewportStatus = NO_DATA, camera = defaultCamera,
                         displayArea = False, widgets = []\<rparr>;
                      st2 = setViewport viewport st1
                  in (Inr (), if suppressEvents viewport then st2
                              else emit (ElementEnabled vid) st2)
                else (Inl UnsupportedViewportType, st1)
         | _ \<Rightarrow> (Inl TypeError, st\<lparr>contextPool := pool2\<rparr>))"

fun enableAll :: "InternalViewportInput list \<Rightarrow> RenderingEngine \<Rightarrow> unit outcome" where
  "enableAll [] st = (Inr (), st)"
| "enableAll (entry # entries) st =
     andThen (addVtkjsDrivenViewport entry st) (\<lambda>_. enableAll entries)"

subsection \<open>The render pass\<close>

record EventDetail =
  detailViewportId :: string
  detailSuppressEvents :: bool
  detailViewportStatus :: ViewportStatus

definition displayed :: "RenderingEngine \<Rightarrow> int \<Rightarrow> int" where
  "displayed st clientSize = round (real_of_int clientSize * pixelRatio st)"

text \<open>
  \<open>Math.min(1, extent / maximum)\<close>: with a zero maximum the quotient is an infinity or
  \<open>NaN\<close>.
\<close>

definition rectEnd :: "int \<Rightarrow> int \<Rightarrow> real option" where
  "rectEnd extent maxExtent =
     (if maxExtent = 0 then (if extent > 0 then Some 1 else None)
      else Some (min 1 (real_of_int extent / real_of_int maxExtent)))"

definition resizeOffScreenCanvasForViewport :: "IViewport \<Rightarrow> nat \<Rightarrow> RenderingEngine \<Rightarrow> RenderingEngine" where
  "resizeOffScreenCanvasForViewport vp i st =
     (case getContextIndexForViewport (contextPool st) (viewportId vp) of
        None \<Rightarrow> st
      | Some contextIndex \<Rightarrow>
          let (maxSizeChanged, pool') =
                updateViewportSize (viewportId vp) (sWidth vp) (sHeight vp) (contextPool st);
              st1 = st\<lparr>contextPool := pool'\<rparr>
          in if \<not> maxSizeChanged then st1
             else
               let maxSize = getMaxSizeForContext pool' (Some contextIndex);
                   container = contexts pool' ! i
               in if containerWidth container = fst maxSize
                     \<and> containerHeight container = snd maxSize
                  then st1
                  else emit (OffscreenResize i (fst maxSize) (snd maxSize))
                         (st1\<lparr>contextPool :=
                            setContext i
                              (container\<lparr>containerWidth := fst maxSize,
                                          containerHeight := snd maxSize\<rparr>) pool'\<rparr>))"

definition setDrawOnly :: "string \<Rightarrow> (string \<times> Renderer) list \<Rightarrow> (string \<times> Renderer) list" where
  "setDrawOnly vid rs = map (\<lambda>(rid, r). (rid, r\<lparr>draw := (rid = vid)\<rparr>)) rs"

definition setWidgetDraw :: "(string \<Rightarrow> bool) \<Rightarrow> (string \<times> IViewport) list \<Rightarrow> (string \<times> IViewport) list" where
  "setWidgetDraw f vps =
     map (\<lambda>(k, vp). (k, vp\<lparr>widgets :=
            map (map_option (\<lambda>r. r\<lparr>draw := f (viewportId vp)\<rparr>)) (widgets vp)\<rparr>)) vps"

text \<open>
  The draw flags as set for one viewport: its own sub-renderer alone among those of the
  render window, and the widget renderers of the engine's viewports according to their
  owner.
\<close>

definition isolateDraw :: "string \<Rightarrow> nat \<Rightarrow> RenderingEngine \<Rightarrow> RenderingEngine" where
  "isolateDraw vid i st =
     (let pool = contextPool st;
          cd = contexts pool ! i
      in st\<lparr>contextPool := setContext i (cd\<lparr>renderers := setDrawOnly vid (renderers cd)\<rparr>) pool,
            viewports := setWidgetDraw (\<lambda>owner. owner = vid) (viewports st)\<rparr>)"

definition resetDraw :: "nat \<Rightarrow> RenderingEngine \<Rightarrow> RenderingEngine" where
  "resetDraw i st =
     (let pool = contextPool st;
          cd = contexts pool ! i
      in st\<lparr>contextPool :=
              setContext i
                (cd\<lparr>renderers := map (\<lambda>(rid, r). (rid, r\<lparr>draw := False\<rparr>)) (renderers cd)\<rparr>) pool,
            viewports := setWidgetDraw (\<lambda>owner. False) (viewports st)\<rparr>)"

definition drawingRenderers :: "ContextData \<Rightarrow> string list" where
  "drawingRenderers cd = map fst (filter (\<lambda>(rid, r). draw r) (renderers cd))"

definition drawingWidgetsOf :: "IViewport \<Rightarrow> (string \<times> nat) list" where
  "drawingWidgetsOf vp =
     map (\<lambda>k. (viewportId vp, k))
         (filter (\<lambda>k. case widgets vp ! k of None \<Rightarrow> False | Some r \<Rightarrow> draw r)
                 [0..<length (widgets vp)])"

definition drawingWidgets :: "RenderingEngine \<Rightarrow> (string \<times> nat) list" where
  "drawingWidgets st = concat (map (\<lambda>(k, vp). drawingWidgetsOf vp) (viewports st))"

definition renderWindowRender :: "nat \<Rightarrow> RenderingEngine \<Rightarrow> RenderingEngine" where
  "renderWindowRender i st =
     emit (RenderWindowRender i (drawingRenderers (contexts (contextPool st) ! i))
             (drawingWidgets st)) st"

definition copyToOnscreenCanvas :: "IViewport \<Rightarrow> RenderingEngine \<Rightarrow> EventDetail option outcome" where
  "copyToOnscreenCanvas vp st =
     (let vid = viewportId vp;
          dWidth = sWidth vp;
          dHeight = sHeight vp;
          (updated, cv) =
            updateCanvasSizeAndAspectRatio (pixelRatio st) (viewportCanvas vp)
              (Some (dWidth, dHeight));
          st1 = (if updated = Some True
                 then emit (CanvasResize vid dWidth dHeight)
                        (setViewport (vp\<lparr>viewportCanvas := cv\<rparr>) st)
                 else st);
          contextIndex = getContextIndexForViewport (contextPool st1) vid;
          maxSize = getMaxSizeForContext (contextPool st1) contextIndex;
          sourceY = snd maxSize - dHeight
      in (Inr (Some \<lparr>detailViewportId = vid, detailSuppressEvents = suppressEvents vp,
                       detailViewportStatus = viewportStatus vp\<rparr>),
          emit (DrawImage vid 0 sourceY dWidth dHeight) st1))"

text \<open>
  \<open>_renderViewportWithContext\<close> for the viewport \<open>vp\<close> and the context numbered \<open>i\<close>
  that the caller found for it. Swapping the view's render passes around the draw
  concerns the vtk view alone and is left out.
\<close>

definition renderViewportWithContext :: "IViewport \<Rightarrow> nat \<Rightarrow> RenderingEngine \<Rightarrow> EventDetail option outcome" where
  "renderViewportWithContext vp i st =
     (if clientWidth (viewportCanvas vp) = 0 \<or> clientHeight (viewportCanvas vp) = 0
      then (Inr None, st)
      else if sWidth vp < VIEWPORT_MIN_SIZE st \<or> sHeight vp < VIEWPORT_MIN_SIZE st
      then (Inr None, emit (Warn ''Viewport is too small'') st)
      else if viewportTypeUsesCustomRenderingPipeline (viewportType vp)
      then (Inr None, emit (CustomRender (viewportId vp)) st)
      else if useCPURendering st then (Inl GPUNotAvailable, st)
      else
        let vid = viewportId vp;
            cd = contexts (contextPool st) ! i;
            st1 = (if getRenderer cd vid = None
                   then st\<lparr>contextPool := setContext i (addRenderer vid cd) (contextPool st)\<rparr>
                   else st);
            st2 = resizeOffScreenCanvasForViewport vp i st1;
            contextIndex = getContextIndexForViewport (contextPool st2) vid;
            maxSize = getMaxSizeForContext (contextPool st2) contextIndex;
            cd2 = contexts (contextPool st2) ! i;
            st3 = st2\<lparr>contextPool :=
                    setContext i
                      (cd2\<lparr>renderers :=
                         map (\<lambda>(rid, r). if rid = vid
                                then (rid, r\<lparr>xEnd := rectEnd (sWidth vp) (fst maxSize),
                                              yEnd := rectEnd (sHeight vp) (snd maxSize)\<rparr>)
                                else (rid, r))
                             (renderers cd2)\<rparr>) (contextPool st2)\<rparr>;
            st4 = isolateDraw vid i st3;
            st5 = renderWindowRender i st4;
            st6 = resetDraw i st5
        in case getViewport st6 vid of
             None \<Rightarrow> copyToOnscreenCanvas vp st6
           | Some vp6 \<Rightarrow> copyToOnscreenCanvas vp6 st6)"

definition renderViewportUsingCustomOrVtkPipeline :: "IViewport \<Rightarrow> RenderingEngine \<Rightarrow> EventDetail option outcome" where
  "renderViewportUsingCustomOrVtkPipeline vp st =
     (if viewportTypeUsesCustomRenderingPipeline (viewportType vp)
      then (Inr None, emit (CustomRender (viewportId vp)) st)
      else if useCPURendering st then (Inl GPUNotAvailable, st)
      else
        let assignedContextIndex = getContextIndexForViewport (contextPool st) (viewportId vp)
        in case (assignedContextIndex, getContextByIndex (contextPool st) assignedContextIndex) of
             (Some (Index i), Some contextData) \<Rightarrow> renderViewportWithContext vp i st
           | _ \<Rightarrow> (Inl TypeError, st))"

subsection \<open>The frame callback\<close>

definition setRendered :: "string \<Rightarrow> RenderingEngine \<Rightarrow> RenderingEngine" where
  "setRendered vid st =
     (case getViewport st vid of
        None \<Rightarrow> st
      | Some vp \<Rightarrow> setViewport (vp\<lparr>viewportStatus := RENDERED\<rparr>) st)"

text \<open>
  The body of the \<open>map\<close> over the viewports to render: render, mark rendered, remove
  from the dirty set. An exception leaves the loop with the state reached so far.
\<close>

fun renderEach :: "string list \<Rightarrow> RenderingEngine \<Rightarrow> EventDetail option list outcome" where
  "renderEach [] st = (Inr [], st)"
| "renderEach (vid # vids) st =
     (case getViewport st vid of
        None \<Rightarrow> (Inl TypeError, st)
      | Some vp \<Rightarrow>
          andThen (renderViewportUsingCustomOrVtkPipeline vp st)
            (\<lambda>eventDetail st1.
               let st2 = setRendered vid st1;
                   st3 = st2\<lparr>needsRender := needsRender st2 - {vid}\<rparr>
               in andThen (renderEach vids st3)
                    (\<lambda>eventDetails st4. (Inr (eventDetail # eventDetails), st4))))"

definition triggerImageRendered :: "EventDetail option \<Rightarrow> RenderingEngine \<Rightarrow> RenderingEngine" where
  "triggerImageRendered eventDetail st =
     (case eventDetail of
        None \<Rightarrow> st
      | Some d \<Rightarrow> emit (ImageRendered (detailViewportId d)) st)"

definition renderFlaggedViewports :: "RenderingEngine \<Rightarrow> unit outcome" where
  "renderFlaggedViewports st =
     (if hasBeenDestroyed st then (Inl Destroyed, st)
      else
        let viewportsToRender = filter (\<lambda>(vid, vp). vid \<in> needsRender st) (viewports st)
        in if length viewportsToRender = 0
           then (Inr (), st\<lparr>animationFrameSet := False, animationFrameHandle := None\<rparr>)
           else andThen (renderEach (map fst viewportsToRender) st)
                  (\<lambda>eventDetails st1.
                     (Inr (),
                      fold triggerImageRendered eventDetails
                        (st1\<lparr>animationFrameSet := False, animationFrameHandle := None\<rparr>))))"

text \<open>
  Modelled from the spec: \<open>render\<close> of the base engine is not among the sources. It marks
  every viewport dirty and, when no frame is pending, registers one frame callback. The
  handle is the host's; the model records only that one is held.
\<close>

definition render :: "RenderingEngine \<Rightarrow> RenderingEngine" where
  "render st =
     (let st1 = st\<lparr>needsRender := needsRender st \<union> set (map fst (viewports st))\<rparr>
      in if needsRender st1 \<noteq> {} \<and> \<not> animationFrameSet st1
         then st1\<lparr>animationFrameSet := True, animationFrameHandle := Some 0\<rparr>
         else st1)"

subsection \<open>Resizing\<close>

definition needsResize :: "RenderingEngine \<Rightarrow> string \<Rightarrow> bool" where
  "needsResize st vid =
     (case getViewport st vid of
        None \<Rightarrow> False
      | Some vp \<Rightarrow>
          let cv = viewportCanvas vp;
              displayedWidth = displayed st (clientWidth cv);
              displayedHeight = displayed st (clientHeight cv)
          in \<not> (displayedWidth = 0 \<or> displayedHeight = 0)
             \<and> \<not> (displayedWidth = width cv \<and> displayedHeight = height cv))"

definition setTargetSize :: "string \<Rightarrow> RenderingEngine \<Rightarrow> RenderingEngine" where
  "setTargetSize vid st =
     (case getViewport st vid of
        None \<Rightarrow> st
      | Some vp \<Rightarrow>
          let cv = viewportCanvas vp;
              targetWidth = max (VIEWPORT_MIN_SIZE st) (displayed st (clientWidth cv));
              targetHeight = max (VIEWPORT_MIN_SIZE st) (displayed st (clientHeight cv))
          in setViewport (vp\<lparr>sWidth := targetWidth, sHeight := targetHeight\<rparr>) st)"

text \<open>
  The first loop of \<open>_resize\<close>: per viewport, reset the origin, record the size in the
  pool, remember the context when its maximum changed, and set the renderer's rectangle.
\<close>

fun resizeEach :: "string list \<Rightarrow> contextIndex option list \<Rightarrow> RenderingEngine
                     \<Rightarrow> contextIndex option list outcome" where
  "resizeEach [] contextsToResize st = (Inr contextsToResize, st)"
| "resizeEach (vid # vids) contextsToResize st =
     (case getViewport st vid of
        None \<Rightarrow> (Inl TypeError, st)
      | Some vp0 \<Rightarrow>
          let vp = vp0\<lparr>sx := 0, sy := 0\<rparr>;
              st0 = setViewport vp st;
              contextIndex = getContextIndexForViewport (contextPool st0) vid;
              (maxSizeChanged, pool') =
                updateViewportSize vid (sWidth vp) (sHeight vp) (contextPool st0);
              st1 = st0\<lparr>contextPool := pool'\<rparr>;
              toResize = (if maxSizeChanged \<and> contextIndex \<notin> set contextsToResize
                          then contextsToResize @ [contextIndex] else contextsToResize)
          in case (contextIndex, getContextByIndex pool' contextIndex) of
               (Some (Index i), Some cd) \<Rightarrow>
                 (case getRenderer cd vid of
                    None \<Rightarrow> (Inl TypeError, st1)
                  | Some r \<Rightarrow>
                      let maxSize = getMaxSizeForContext pool' contextIndex;
                          cd' = cd\<lparr>renderers := AList.update vid
                                  (r\<lparr>xEnd := rectEnd (sWidth vp) (fst maxSize),
                                     yEnd := rectEnd (sHeight vp) (snd maxSize)\<rparr>)
                                  (renderers cd)\<rparr>
                      in resizeEach vids toResize
                           (st1\<lparr>contextPool := setContext i cd' pool'\<rparr>))
             | _ \<Rightarrow> (Inl TypeError, st1))"

definition resizeContext :: "contextIndex option \<Rightarrow> RenderingEngine \<Rightarrow> RenderingEngine" where
  "resizeContext contextIndex st =
     (case (contextIndex, getContextByIndex (contextPool st) contextIndex) of
        (Some (Index i), Some cd) \<Rightarrow>
          let maxSize = getMaxSizeForContext (contextPool st) contextIndex
          in emit (OffscreenResize i (fst maxSize) (snd maxSize))
               (st\<lparr>contextPool :=
                     setContext i (cd\<lparr>containerWidth := fst maxSize,
                                       containerHeight := snd maxSize\<rparr>) (contextPool st)\<rparr>)
      | _ \<Rightarrow> st)"

definition resize :: "string list \<Rightarrow> RenderingEngine \<Rightarrow> unit outcome" where
  "resize vids st =
     andThen (resizeEach vids [] st)
       (\<lambda>contextsToResize st1. (Inr (), fold resizeContext contextsToResize st1))"

text \<open>
  Camera handling after a resize. \<open>resetCameraForResize\<close> belongs to the viewport
  classes and is a parameter.
\<close>

definition restoreCamera :: "bool \<Rightarrow> (IViewport \<Rightarrow> IViewport) \<Rightarrow> string \<Rightarrow> RenderingEngine \<Rightarrow> RenderingEngine" where
  "restoreCamera keepCamera resetCameraForResize vid st =
     (case getViewport st vid of
        None \<Rightarrow> st
      | Some vp \<Rightarrow>
          let prevCamera = camera vp;
              rot = rotation prevCamera;
              flip = flipHorizontal prevCamera;
              vp1 = resetCameraForResize vp;
              vp2 = (if keepCamera
                     then (if displayArea vp1
                           then
                             (let vp' = (if flip
                                         then vp1\<lparr>camera := (camera vp1)\<lparr>flipHorizontal := flip\<rparr>\<rparr>
                                         else vp1)
                              in if rot \<noteq> 0
                                 then vp'\<lparr>camera := (camera vp')\<lparr>rotation := rot\<rparr>\<rparr>
                                 else vp')
                           else vp1\<lparr>camera := prevCamera\<rparr>)
                     else vp1)
          in setViewport vp2 st)"

text \<open>
  \<open>_resizeVTKViewports\<close>. Nothing is assigned before the test of the frame flag.
\<close>

definition resizeVTKViewports ::
  "(IViewport \<Rightarrow> IViewport) \<Rightarrow> string list \<Rightarrow> bool \<Rightarrow> bool \<Rightarrow> RenderingEngine \<Rightarrow> unit outcome" where
  "resizeVTKViewports resetCameraForResize vtkDrivenViewports keepCamera immediate st =
     (let viewportsNeedingResize = filter (needsResize st) vtkDrivenViewports
      in if length viewportsNeedingResize = 0 then (Inr (), st)
         else if animationFrameSet st then (Inr (), st)
         else
           let st1 = fold setTargetSize viewportsNeedingResize st
           in andThen (if length vtkDrivenViewports \<noteq> 0
                       then resize vtkDrivenViewports st1 else (Inr (), st1))
                (\<lambda>_ st2.
                   let st3 = fold (restoreCamera keepCamera resetCameraForResize)
                               vtkDrivenViewports st2
                   in (Inr (), if immediate then render st3 else st3)))"

subsection \<open>Example engines\<close>

text \<open>
  An engine with a pool of two contexts and no viewport; stack viewports \<open>A\<close>, \<open>B\<close>,
  \<open>C\<close> and a volume viewport \<open>V\<close> on 300 by 200 canvases; and an engine holding one
  stack viewport whose canvas is laid out at 400 by 300 but rendered at 200 by 150, with
  a frame pending.
\<close>

definition emptyContext :: ContextData where
  "emptyContext = \<lparr>renderers = [], containerWidth = 0, containerHeight = 0\<rparr>"

definition emptyEngine :: RenderingEngine where
  "emptyEngine =
     \<lparr>viewports = [], needsRender = {}, animationFrameSet = False,
      animationFrameHandle = None, hasBeenDestroyed = False, useCPURendering = False,
      contextPool = \<lparr>contexts = [emptyContext, emptyContext], viewportToContext = [],
                     viewportSizes = []\<rparr>,
      VIEWPORT_MIN_SIZE = 2, devicePixelRatio = 1, effects = []\<rparr>"

definition entryFor :: "string \<Rightarrow> ViewportType \<Rightarrow> InternalViewportInput" where
  "entryFor vid t = \<lparr>inputViewportId = vid, inputType = t, inputCanvas = exampleCanvas,
                      inputSuppressEvents = False\<rparr>"

definition staleCanvas :: Canvas where
  "staleCanvas = \<lparr>width = 200, height = 150, clientWidth = 400, clientHeight = 300,
     offsetWidth = 400, offsetHeight = 300, rectWidth = 400, rectHeight = 300,
     aspectRatio = Some (200, 150)\<rparr>"

definition pendingEngine :: RenderingEngine where
  "pendingEngine =
     render (snd (addVtkjsDrivenViewport
                    ((entryFor ''A'' STACK)\<lparr>inputCanvas := staleCanvas\<rparr>) emptyEngine))"

definition afterTwoResizes :: RenderingEngine where
  "afterTwoResizes =
     snd (andThen (resizeVTKViewports (\<lambda>vp. vp) [''A''] True True pendingEngine)
            (\<lambda>_. resizeVTKViewports (\<lambda>vp. vp) [''A''] True True))"

text \<open>
  An engine whose one stack viewport sits in a hidden canvas (client size 0 by 0) and is
  dirty with a frame pending; a viewport below the minimum size; and an engine whose one
  stack viewport carries a widget with a renderer of its own.
\<close>

definition hiddenCanvas :: Canvas where
  "hiddenCanvas = \<lparr>width = 300, height = 200, clientWidth = 0, clientHeight = 0,
     offsetWidth = 0, offsetHeight = 0, rectWidth = 0, rectHeight = 0,
     aspectRatio = Some (300, 200)\<rparr>"

definition hiddenViewport :: IViewport where
  "hiddenViewport =
     \<lparr>viewportId = ''A'', viewportType = STACK, viewportCanvas = hiddenCanvas,
      sx = 0, sy = 0, sWidth = 300, sHeight = 200, suppressEvents = False,
      viewportStatus = NO_DATA, camera = defaultCamera, displayArea = False, widgets = []\<rparr>"

definition hiddenEngine :: RenderingEngine where
  "hiddenEngine =
     render (snd (addVtkjsDrivenViewport
                    ((entryFor ''A'' STACK)\<lparr>inputCanvas := hiddenCanvas\<rparr>) emptyEngine))"

definition tinyViewport :: IViewport where
  "tinyViewport = hiddenViewport\<lparr>viewportCanvas := exampleCanvas, sWidth := 1, sHeight := 1\<rparr>"

definition widgetViewport :: IViewport where
  "widgetViewport =
     \<lparr>viewportId = ''A'', viewportType = STACK, viewportCanvas = exampleCanvas,
      sx = 0, sy = 0, sWidth = 300, sHeight = 200, suppressEvents = False,
      viewportStatus = NO_DATA, camera = defaultCamera, displayArea = False,
      widgets = [Some newRenderer]\<rparr>"

definition widgetEngine :: RenderingEngine where
  "widgetEngine =
     setViewport widgetViewport
       (snd (addVtkjsDrivenViewport (entryFor ''A'' STACK) emptyEngine))"

section \<open>Properties of the waveform viewport\<close>

subsection \<open>Cached extrema\<close>

lemma Min_insert_step:
  "finite S \<Longrightarrow> Min (insert (if (d::int) < a then d else a) S) = Min (insert a (insert d S))"
  by (cases "S = {}") (auto simp: min_def)

lemma Max_insert_step:
  "finite S \<Longrightarrow> Max (insert (if (d::int) > b then d else b) S) = Max (insert b (insert d S))"
  by (cases "S = {}") (auto simp: max_def)

lemma computeMinMax_fold:
  "fold computeMinMax_step ds (a, b) =
     (Min (insert a (sint ` set ds)), Max (insert b (sint ` set ds)))"
proof (induction ds arbitrary: a b)
  case Nil
  show ?case by simp
next
  case (Cons d ds)
  let ?S = "sint ` set ds"
  have fin: "finite ?S" by simp
  have "fold computeMinMax_step (d # ds) (a, b) =
          fold computeMinMax_step ds
            (if sint d < a then sint d else a, if sint d > b then sint d else b)"
    by (simp add: computeMinMax_step_def Let_def)
  also have "\<dots> = (Min (insert (if sint d < a then sint d else a) ?S),
                    Max (insert (if sint d > b then sint d else b) ?S))"
    by (rule Cons.IH)
  also have "\<dots> = (Min (insert a (insert (sint d) ?S)), Max (insert b (insert (sint d) ?S)))"
    by (simp only: Min_insert_step [OF fin] Max_insert_step [OF fin])
  finally show ?case by simp
qed

text \<open>
  Claim C10. For every channel sample array the cached minimum is the smaller of 0 and the
  true minimum element, the cached maximum is the larger of 0 and the true maximum element,
  so the minimum is at most 0 and the maximum at least 0, an empty array gives 0 for both,
  and the cached amplitude range (maximum minus minimum) covers every sample and zero,
  also when all samples are strictly positive or strictly negative.
\<close>

theorem computeMinMax_includes_zero:
  "computeMinMax [] = (0, 0)
   \<and> computeMinMax (d # ds) =
       (min 0 (Min (sint ` set (d # ds))), max 0 (Max (sint ` set (d # ds))))
   \<and> fst (computeMinMax xs) \<le> 0 \<and> 0 \<le> snd (computeMinMax xs)
   \<and> snd (computeMinMax (d # ds)) - fst (computeMinMax (d # ds))
       \<ge> max (Max (sint ` set (d # ds))) (- Min (sint ` set (d # ds)))"
proof -
  let ?S = "sint ` set (d # ds)"
  have fin: "finite ?S" and ne: "?S \<noteq> {}" by simp_all
  have e: "computeMinMax [] = (0, 0)"
    by (simp add: computeMinMax_def)
  have c: "computeMinMax (d # ds) = (min 0 (Min ?S), max 0 (Max ?S))"
    unfolding computeMinMax_def computeMinMax_fold
    using Min_insert [OF fin ne, of 0] Max_insert [OF fin ne, of 0] by simp
  have b: "fst (computeMinMax xs) \<le> 0 \<and> 0 \<le> snd (computeMinMax xs)"
    unfolding computeMinMax_def computeMinMax_fold by simp
  define m where "m = Min ?S"
  define M where "M = Max ?S"
  have mM: "m \<le> M"
  proof -
    have "sint d \<in> ?S" by simp
    then have "Min ?S \<le> sint d" and "sint d \<le> Max ?S"
      using fin by (simp_all only: Min_le Max_ge)
    then show ?thesis unfolding m_def M_def by (rule order_trans)
  qed
  have c': "computeMinMax (d # ds) = (min 0 m, max 0 M)"
    unfolding m_def M_def by (rule c)
  have "max 0 M - min 0 m \<ge> max M (- m)"
    using mM by (simp add: max_def min_def)
  then have r: "snd (computeMinMax (d # ds)) - fst (computeMinMax (d # ds))
             \<ge> max (Max ?S) (- Min ?S)"
    unfolding c' by (simp only: fst_conv snd_conv m_def M_def)
  from e c b r show ?thesis by blast
qed

subsection \<open>Scale and content height\<close>

lemma fold_max_range:
  "fold (\<lambda>ch m. max m (f ch)) cs (a::real) = Max (insert a (f ` set cs))"
proof (induction cs arbitrary: a)
  case Nil
  show ?case by simp
next
  case (Cons c cs)
  have fin: "finite (f ` set cs)" by simp
  have "Max (insert (max a (f c)) (f ` set cs)) = Max (insert a (insert (f c) (f ` set cs)))"
    by (cases "f ` set cs = {}") (auto simp: max_def)
  with Cons.IH [of "max a (f c)"] show ?case by simp
qed

lemma recalculateHeight_fold:
  "fold (recalculateHeight_step sc) cs t =
     t + (\<Sum>ch\<leftarrow>visibleChannels cs. amplitudeRange ch * sc * 1.25 + CHANNEL_SPACING)"
  by (induction cs arbitrary: t) (simp_all add: recalculateHeight_step_def visibleChannels_def)

lemma computeChannelScale_formula:
  "channelScale (computeChannelScale vp) =
     (let vis = visibleChannels (channels vp) in
      if vis = [] \<or> ecgWidth vp = 0 then 0
      else ((ecgWidth vp * canvasAspect (canvas vp) - CHANNEL_SPACING * real (length vis))
              / real (length vis))
           / (Max (insert 1 (amplitudeRange ` set vis)) * 1.25))"
  by (simp add: computeChannelScale_def Let_def fold_max_range)

lemma recalculateHeight_formula:
  "ecgHeight (recalculateHeight vp) =
     (\<Sum>ch\<leftarrow>visibleChannels (channels vp). amplitudeRange ch * channelScale vp * 1.25 + CHANNEL_SPACING)"
  by (simp add: recalculateHeight_def recalculateHeight_fold)

lemma computeChannelScale_fields [simp]:
  "channels (computeChannelScale vp) = channels vp"
  "ecgWidth (computeChannelScale vp) = ecgWidth vp"
  "canvas (computeChannelScale vp) = canvas vp"
  "waveformData (computeChannelScale vp) = waveformData vp"
  "imageId (computeChannelScale vp) = imageId vp"
  by (simp_all add: computeChannelScale_def Let_def)

lemma recalculateHeight_fields [simp]:
  "channels (recalculateHeight vp) = channels vp"
  "ecgWidth (recalculateHeight vp) = ecgWidth vp"
  "canvas (recalculateHeight vp) = canvas vp"
  "channelScale (recalculateHeight vp) = channelScale vp"
  "waveformData (recalculateHeight vp) = waveformData vp"
  "imageId (recalculateHeight vp) = imageId vp"
  by (simp_all add: recalculateHeight_def)

lemma refreshRenderValues_fields [simp]:
  "channels (refreshRenderValues vp) = channels vp"
  "ecgWidth (refreshRenderValues vp) = ecgWidth vp"
  "ecgHeight (refreshRenderValues vp) = ecgHeight vp"
  "canvas (refreshRenderValues vp) = canvas vp"
  "channelScale (refreshRenderValues vp) = channelScale vp"
  "waveformData (refreshRenderValues vp) = waveformData vp"
  "imageId (refreshRenderValues vp) = imageId vp"
  by (simp_all add: refreshRenderValues_def Let_def)

lemma scale_height_depend:
  assumes "visibleChannels (channels vp) = visibleChannels (channels vp')"
      and "ecgWidth vp = ecgWidth vp'" and "canvas vp = canvas vp'"
  shows "channelScale (computeChannelScale vp) = channelScale (computeChannelScale vp')"
    and "ecgHeight (recalculateHeight (computeChannelScale vp))
           = ecgHeight (recalculateHeight (computeChannelScale vp'))"
proof -
  show s: "channelScale (computeChannelScale vp) = channelScale (computeChannelScale vp')"
    unfolding computeChannelScale_formula by (simp only: assms)
  show "ecgHeight (recalculateHeight (computeChannelScale vp))
           = ecgHeight (recalculateHeight (computeChannelScale vp'))"
    unfolding recalculateHeight_formula computeChannelScale_fields by (simp only: assms s)
qed

lemma visibleChannels_hide:
  assumes "i < length cs"
  shows "visibleChannels (cs[i := (cs ! i)\<lparr>visible := False\<rparr>])
       = visibleChannels (take i cs @ drop (Suc i) cs)"
proof -
  have "cs[i := (cs ! i)\<lparr>visible := False\<rparr>]
          = take i cs @ (cs ! i)\<lparr>visible := False\<rparr> # drop (Suc i) cs"
    using assms by (rule upd_conv_take_nth_drop)
  then show ?thesis by (simp add: visibleChannels_def)
qed

lemma show_again:
  assumes "i < length cs" and "visible (cs ! i)"
  shows "(cs[i := (cs ! i)\<lparr>visible := False\<rparr>])
           [i := ((cs[i := (cs ! i)\<lparr>visible := False\<rparr>]) ! i)\<lparr>visible := True\<rparr>] = cs"
proof -
  have "(cs ! i)\<lparr>visible := False\<rparr>\<lparr>visible := True\<rparr> = cs ! i"
    using assms(2) by simp
  then show ?thesis using assms(1) by (simp add: list_update_same_conv)
qed

lemma relayout_fields [simp]:
  "channels (relayout vp) = channels vp"
  "ecgWidth (relayout vp) = ecgWidth vp"
  "canvas (relayout vp) = canvas vp"
  "channelScale (relayout vp) = channelScale (computeChannelScale vp)"
  "ecgHeight (relayout vp) = ecgHeight (recalculateHeight (computeChannelScale vp))"
  by (simp_all add: relayout_def)

lemma laidOut_relayout: "laidOut (relayout vp)"
proof -
  have a: "channelScale (computeChannelScale (relayout vp)) = channelScale (computeChannelScale vp)"
    by (rule scale_height_depend(1)) simp_all
  have b: "ecgHeight (recalculateHeight (relayout vp))
             = ecgHeight (recalculateHeight (computeChannelScale vp))"
    unfolding recalculateHeight_formula by simp
  show ?thesis unfolding laidOut_def using a b by simp
qed




subsection \<open>Coordinate round trip\<close>

text \<open>
  Claim C3: on a loaded waveform viewport, for every domain point \<open>(s, a, c)\<close> with \<open>c\<close>
  the index of a visible channel, \<open>s\<close> within the sample bounds and the point inside
  the band of that channel, \<open>canvasToWorld (worldToCanvas [s, a, c])\<close> is \<open>[s, a, c]\<close>
  within one unit in each component.

  The transforms do not do that once a channel before \<open>c\<close> is hidden. Both read the
  third coordinate as a position in the list of layouts, and that list holds the
  visible channels only. In the example recording with channel 0 hidden, channel 1 is
  the only visible channel and its layout is at position 0: its band ends at 20, its
  baseline is at 8 and the scale is 1/75, so that amplitude -450, the middle of the range
  \<open>[-900, 0]\<close> of channel 1, lies at height 14 inside the band. For the point
  \<open>(1, -450, 1)\<close> \<open>worldToCanvas\<close> finds no layout at position 1 and returns the
  canvas origin, and \<open>canvasToWorld\<close> takes the origin to \<open>(0, 600, 0)\<close>: the amplitude
  comes back 1050 away and the channel is 0 instead of 1.
\<close>

theorem round_trip_with_hidden_channel:
  "waveformData hiddenFirstViewport \<noteq> None
   \<and> map visible (channels hiddenFirstViewport) = [False, True]
   \<and> map (\<lambda>ch. (min_cached ch, max_cached ch)) (channels hiddenFirstViewport)
         = [(0, 900), (- 900, 0)]
   \<and> channelScale hiddenFirstViewport = 1 / 75
   \<and> map (\<lambda>l. (itemHeight l, yOffset l, baseline l))
           (computeChannelLayouts hiddenFirstViewport) = [(15, 20, 8)]
   \<and> worldToCanvas hiddenFirstViewport (1, - 450, 1) = Inr (0, 0)
   \<and> canvasToWorld hiddenFirstViewport (0, 0) = Inr (0, 600, 0)"
  by code_simp

subsection \<open>Failed load\<close>

text \<open>
  Claim C8, as amended. When the waveform element offers none of the recognised source
  forms, \<open>setEcg\<close> fails with the data-source error and leaves channels, waveform data,
  content dimensions, scale and camera as they were, so an empty viewport stays empty;
  the current image id is already set to the requested id.
\<close>

theorem setEcg_no_data_source:
  assumes "Value wfd = None" and "\<not> truthy (InlineBinary wfd)"
      and "retrieveBulkDataFn wfd = None" and "\<not> truthy (BulkDataURI wfd)"
      and "retrieveBulkData m =
             Some (makeRetrieveBulkData atob fetchBytes wfd nc ns bits interp wroot study)"
  shows "setEcg newId (Some m) vp = (Some NoDataSource, vp\<lparr>imageId := Some newId\<rparr>)"
  using assms by (simp add: setEcg_def makeRetrieveBulkData_def Let_def)

theorem setEcg_no_data_source_witness:
  "setEcg ''ecg:none'' (Some noSourceModule) emptyViewport
     = (Some NoDataSource, emptyViewport\<lparr>imageId := Some ''ecg:none''\<rparr>)"
proof -
  have a: "Value noSource = None" "\<not> truthy (InlineBinary noSource)"
          "retrieveBulkDataFn noSource = None" "\<not> truthy (BulkDataURI noSource)"
    by (simp_all add: noSource_def truthy_def)
  have b: "retrieveBulkData noSourceModule =
      Some (makeRetrieveBulkData (\<lambda>s. []) (\<lambda>u. []) noSource 2 2 16 ''SS'' None None)"
    by (simp add: noSourceModule_def)
  show ?thesis by (rule setEcg_no_data_source [OF a b])
qed

text \<open>
  Claim C8 as stated fails for the current image id, which the failed load changes.
\<close>

theorem failed_load_changes_image_id:
  "fst (setEcg ''ecg:none'' (Some noSourceModule) emptyViewport) = Some NoDataSource
   \<and> imageId (snd (setEcg ''ecg:none'' (Some noSourceModule) emptyViewport))
       \<noteq> imageId emptyViewport"
  by code_simp

section \<open>Properties of the rendering engine\<close>

subsection \<open>Fields left alone\<close>

lemma updateViewportSize_fields [simp]:
  "contexts (snd (updateViewportSize vid w h pool)) = contexts pool"
  "viewportToContext (snd (updateViewportSize vid w h pool)) = viewportToContext pool"
  by (simp_all add: updateViewportSize_def Let_def split: option.splits)

lemma assignViewportToContext_fields [simp]:
  "contexts (assignViewportToContext vid ci pool) = contexts pool"
  "viewportToContext (assignViewportToContext vid ci pool)
     = AList.update vid ci (viewportToContext pool)"
  by (simp_all add: assignViewportToContext_def)

lemma setContext_fields [simp]:
  "length (contexts (setContext i cd pool)) = length (contexts pool)"
  "viewportToContext (setContext i cd pool) = viewportToContext pool"
  by (simp_all add: setContext_def)

lemma emit_fields [simp]:
  "viewports (emit e st) = viewports st"
  "contextPool (emit e st) = contextPool st"
  "needsRender (emit e st) = needsRender st"
  "animationFrameSet (emit e st) = animationFrameSet st"
  "useCPURendering (emit e st) = useCPURendering st"
  "VIEWPORT_MIN_SIZE (emit e st) = VIEWPORT_MIN_SIZE st"
  "devicePixelRatio (emit e st) = devicePixelRatio st"
  "hasBeenDestroyed (emit e st) = hasBeenDestroyed st"
  "effects (emit e st) = effects st @ [e]"
  by (simp_all add: emit_def)

lemma setViewport_fields [simp]:
  "contextPool (setViewport vp st) = contextPool st"
  "needsRender (setViewport vp st) = needsRender st"
  "animationFrameSet (setViewport vp st) = animationFrameSet st"
  "useCPURendering (setViewport vp st) = useCPURendering st"
  "VIEWPORT_MIN_SIZE (setViewport vp st) = VIEWPORT_MIN_SIZE st"
  "devicePixelRatio (setViewport vp st) = devicePixelRatio st"
  "hasBeenDestroyed (setViewport vp st) = hasBeenDestroyed st"
  "effects (setViewport vp st) = effects st"
  "viewports (setViewport vp st) = AList.update (viewportId vp) vp (viewports st)"
  by (simp_all add: setViewport_def)

subsection \<open>Assignment of viewports to contexts\<close>

lemma add_gpu_viewport:
  assumes n: "0 < length (contexts (contextPool st))"
      and t: "inputType e = STACK \<or> inputType e = ORTHOGRAPHIC \<or> inputType e = PERSPECTIVE
              \<or> inputType e = VOLUME_3D"
  shows "\<exists>st' vp. addVtkjsDrivenViewport e st = (Inr (), st')
           \<and> viewports st' = AList.update (inputViewportId e) vp (viewports st)
           \<and> length (contexts (contextPool st')) = length (contexts (contextPool st))
           \<and> viewportToContext (contextPool st') =
               AList.update (inputViewportId e)
                 (if inputType e = STACK
                  then Index (length (viewports st) mod length (contexts (contextPool st)))
                  else Index 0)
                 (viewportToContext (contextPool st))"
proof -
  have n': "contexts (contextPool st) \<noteq> []" using n by simp
  have m: "length (viewports st) mod length (contexts (contextPool st))
             < length (contexts (contextPool st))"
    using n by simp
  show ?thesis
    using t n' m n
    by (auto simp: addVtkjsDrivenViewport_def Let_def getAllContexts_def getContextByIndex_def)
qed

lemma length_update_fresh:
  "k \<notin> fst ` set al \<Longrightarrow> length (AList.update k v al) = Suc (length al)"
  by (induction al) auto

lemma enableAll_stack:
  assumes "0 < length (contexts (contextPool st))"
      and "\<forall>e\<in>set entries. inputType e = STACK"
      and "distinct (map inputViewportId entries)"
      and "set (map inputViewportId entries) \<inter> fst ` set (viewports st) = {}"
  shows "\<exists>st'. enableAll entries st = (Inr (), st')
           \<and> (\<forall>k<length entries.
                 getContextIndexForViewport (contextPool st') (inputViewportId (entries ! k))
                   = Some (Index ((length (viewports st) + k)
                                    mod length (contexts (contextPool st)))))
           \<and> (\<forall>v. v \<notin> set (map inputViewportId entries) \<longrightarrow>
                 getContextIndexForViewport (contextPool st') v
                   = getContextIndexForViewport (contextPool st) v)"
  using assms
proof (induction entries arbitrary: st)
  case Nil
  show ?case by simp
next
  case (Cons e es)
  let ?N = "length (contexts (contextPool st))"
  let ?vid = "inputViewportId e"
  have te: "inputType e = STACK" using Cons.prems(2) by simp
  from add_gpu_viewport [OF Cons.prems(1), of e] te obtain st1 vp where
    st1: "addVtkjsDrivenViewport e st = (Inr (), st1)"
         "viewports st1 = AList.update ?vid vp (viewports st)"
         "length (contexts (contextPool st1)) = ?N"
         "viewportToContext (contextPool st1) =
            AList.update ?vid (Index (length (viewports st) mod ?N))
              (viewportToContext (contextPool st))"
    by auto
  have fresh: "?vid \<notin> fst ` set (viewports st)" using Cons.prems(4) by auto
  have len1: "length (viewports st1) = Suc (length (viewports st))"
    using fresh by (simp add: st1(2) length_update_fresh)
  have keys1: "fst ` set (viewports st1) = insert ?vid (fst ` set (viewports st))"
    by (simp add: st1(2) dom_update)
  have idx1: "getContextIndexForViewport (contextPool st1) v =
      (if v = ?vid then Some (Index (length (viewports st) mod ?N))
       else getContextIndexForViewport (contextPool st) v)" for v
    by (simp add: getContextIndexForViewport_def st1(4) update_conv')
  have p1: "0 < length (contexts (contextPool st1))" using Cons.prems(1) st1(3) by simp
  have p2: "\<forall>e\<in>set es. inputType e = STACK" using Cons.prems(2) by simp
  have p3: "distinct (map inputViewportId es)" using Cons.prems(3) by simp
  have p4: "set (map inputViewportId es) \<inter> fst ` set (viewports st1) = {}"
    using Cons.prems(3,4) keys1 by auto
  from Cons.IH [OF p1 p2 p3 p4] obtain st' where
    st': "enableAll es st1 = (Inr (), st')"
         "\<forall>k<length es.
             getContextIndexForViewport (contextPool st') (inputViewportId (es ! k))
               = Some (Index ((length (viewports st1) + k) mod length (contexts (contextPool st1))))"
         "\<forall>v. v \<notin> set (map inputViewportId es) \<longrightarrow>
             getContextIndexForViewport (contextPool st') v
               = getContextIndexForViewport (contextPool st1) v"
    by blast
  have run: "enableAll (e # es) st = (Inr (), st')"
    by (simp add: st1(1) st'(1) andThen_def)
  have notin: "?vid \<notin> set (map inputViewportId es)" using Cons.prems(3) by simp
  have each: "getContextIndexForViewport (contextPool st') (inputViewportId ((e # es) ! k))
               = Some (Index ((length (viewports st) + k) mod ?N))"
    if k: "k < length (e # es)" for k
  proof (cases k)
    case 0
    then show ?thesis using st'(3) notin idx1 by simp
  next
    case (Suc j)
    then have "j < length es" using k by simp
    with st'(2) have "getContextIndexForViewport (contextPool st') (inputViewportId (es ! j))
        = Some (Index ((length (viewports st1) + j) mod length (contexts (contextPool st1))))"
      by blast
    then show ?thesis using Suc len1 st1(3) by simp
  qed
  have frame: "getContextIndexForViewport (contextPool st') v
                 = getContextIndexForViewport (contextPool st) v"
    if "v \<notin> set (map inputViewportId (e # es))" for v
    using that st'(3) idx1 by simp
  from run each frame show ?case by blast
qed

text \<open>
  Claim C1. With a pool of \<open>N\<close> contexts and only stack viewports enabled (under
  distinct ids, from an engine without viewports), the \<open>k\<close>-th enabled viewport is
  assigned context \<open>k mod N\<close>; every other GPU-driven kind is assigned context 0. The
  witness is the scenario of the spec: pool size 2, viewports A, B, C in that order.
\<close>

theorem round_robin_assignment:
  "(0 < length (contexts (contextPool st)) \<and> viewports st = []
      \<and> (\<forall>e\<in>set entries. inputType e = STACK)
      \<and> distinct (map inputViewportId entries) \<and> k < length entries
    \<longrightarrow> (\<exists>st'. enableAll entries st = (Inr (), st')
           \<and> getContextIndexForViewport (contextPool st') (inputViewportId (entries ! k))
               = Some (Index (k mod length (contexts (contextPool st))))))
   \<and> (0 < length (contexts (contextPool st))
      \<and> (inputType e = ORTHOGRAPHIC \<or> inputType e = PERSPECTIVE \<or> inputType e = VOLUME_3D)
    \<longrightarrow> (\<exists>st'. addVtkjsDrivenViewport e st = (Inr (), st')
           \<and> getContextIndexForViewport (contextPool st') (inputViewportId e)
               = Some (Index 0)))"
proof (intro conjI impI)
  assume a: "0 < length (contexts (contextPool st)) \<and> viewports st = []
      \<and> (\<forall>e\<in>set entries. inputType e = STACK)
      \<and> distinct (map inputViewportId entries) \<and> k < length entries"
  then have d: "set (map inputViewportId entries) \<inter> fst ` set (viewports st) = {}"
    by simp
  from a have p1: "0 < length (contexts (contextPool st))"
    and p2: "\<forall>e\<in>set entries. inputType e = STACK"
    and p3: "distinct (map inputViewportId entries)"
    and k: "k < length entries" and v: "viewports st = []"
    by simp_all
  from enableAll_stack [OF p1 p2 p3 d] k v
  show "\<exists>st'. enableAll entries st = (Inr (), st')
           \<and> getContextIndexForViewport (contextPool st') (inputViewportId (entries ! k))
               = Some (Index (k mod length (contexts (contextPool st))))"
    by auto
next
  assume b: "0 < length (contexts (contextPool st))
      \<and> (inputType e = ORTHOGRAPHIC \<or> inputType e = PERSPECTIVE \<or> inputType e = VOLUME_3D)"
  then have n: "0 < length (contexts (contextPool st))"
    and t: "inputType e = STACK \<or> inputType e = ORTHOGRAPHIC \<or> inputType e = PERSPECTIVE
              \<or> inputType e = VOLUME_3D"
    and ns: "inputType e \<noteq> STACK"
    by auto
  from add_gpu_viewport [OF n t] ns obtain st' where
    "addVtkjsDrivenViewport e st = (Inr (), st')"
    "viewportToContext (contextPool st') =
       AList.update (inputViewportId e) (Index 0) (viewportToContext (contextPool st))"
    by auto
  then show "\<exists>st'. addVtkjsDrivenViewport e st = (Inr (), st')
           \<and> getContextIndexForViewport (contextPool st') (inputViewportId e) = Some (Index 0)"
    by (simp add: getContextIndexForViewport_def update_conv')
qed

theorem round_robin_assignment_witness:
  "(\<exists>st'. enableAll [entryFor ''A'' STACK, entryFor ''B'' STACK, entryFor ''C'' STACK] emptyEngine
            = (Inr (), st')
         \<and> getContextIndexForViewport (contextPool st') ''A'' = Some (Index 0)
         \<and> getContextIndexForViewport (contextPool st') ''B'' = Some (Index 1)
         \<and> getContextIndexForViewport (contextPool st') ''C'' = Some (Index 0))
   \<and> (\<exists>st'. addVtkjsDrivenViewport (entryFor ''V'' VOLUME_3D) emptyEngine = (Inr (), st')
         \<and> getContextIndexForViewport (contextPool st') ''V'' = Some (Index 0))"
proof -
  let ?es = "[entryFor ''A'' STACK, entryFor ''B'' STACK, entryFor ''C'' STACK]"
  have h: "0 < length (contexts (contextPool emptyEngine))" "viewports emptyEngine = []"
          "\<forall>e\<in>set ?es. inputType e = STACK" "distinct (map inputViewportId ?es)"
          "length (contexts (contextPool emptyEngine)) = 2"
    by (simp_all add: emptyEngine_def entryFor_def)
  have t: "inputType (entryFor ''V'' VOLUME_3D) = VOLUME_3D"
          "inputViewportId (entryFor ''V'' VOLUME_3D) = ''V''"
    by (simp_all add: entryFor_def)
  have ids: "inputViewportId (?es ! 0) = ''A''" "inputViewportId (?es ! 1) = ''B''"
            "inputViewportId (?es ! 2) = ''C''"
    by (simp_all add: entryFor_def)
  from round_robin_assignment [of emptyEngine ?es 0] h ids
  have a: "\<exists>st'. enableAll ?es emptyEngine = (Inr (), st')
             \<and> getContextIndexForViewport (contextPool st') ''A'' = Some (Index 0)"
    by simp
  from round_robin_assignment [of emptyEngine ?es 1] h ids
  have b: "\<exists>st'. enableAll ?es emptyEngine = (Inr (), st')
             \<and> getContextIndexForViewport (contextPool st') ''B'' = Some (Index 1)"
    by simp
  from round_robin_assignment [of emptyEngine ?es 2] h ids
  have c: "\<exists>st'. enableAll ?es emptyEngine = (Inr (), st')
             \<and> getContextIndexForViewport (contextPool st') ''C'' = Some (Index 0)"
    by simp
  from round_robin_assignment [of emptyEngine _ _ "entryFor ''V'' VOLUME_3D"] h(1) t
  have v: "\<exists>st'. addVtkjsDrivenViewport (entryFor ''V'' VOLUME_3D) emptyEngine = (Inr (), st')
             \<and> getContextIndexForViewport (contextPool st') ''V'' = Some (Index 0)"
    by simp
  from a b c v show ?thesis by auto
qed

subsection \<open>Resize while a frame is pending\<close>

text \<open>
  Claim C5, as amended. While a frame is pending a resize request returns without
  changing anything: no viewport geometry, no pool footprint, no camera, and no record
  of the request. Two requests before the frame completes change nothing either.
\<close>

theorem resize_while_frame_pending_changes_nothing:
  "animationFrameSet st \<longrightarrow>
     resizeVTKViewports resetCameraForResize vids keepCamera immediate st = (Inr (), st)
     \<and> andThen (resizeVTKViewports resetCameraForResize vids keepCamera immediate st)
           (\<lambda>_. resizeVTKViewports resetCameraForResize vids keepCamera immediate)
         = (Inr (), st)"
  by (simp add: resizeVTKViewports_def andThen_def Let_def)

theorem resize_while_frame_pending_witness:
  "resizeVTKViewports (\<lambda>vp. vp) [''A''] True True pendingEngine = (Inr (), pendingEngine)
   \<and> afterTwoResizes = pendingEngine"
proof -
  have p: "animationFrameSet pendingEngine" by code_simp
  from resize_while_frame_pending_changes_nothing [of pendingEngine "\<lambda>vp. vp" "[''A'']" True True] p
  have a: "resizeVTKViewports (\<lambda>vp. vp) [''A''] True True pendingEngine = (Inr (), pendingEngine)"
    and b: "andThen (resizeVTKViewports (\<lambda>vp. vp) [''A''] True True pendingEngine)
              (\<lambda>_. resizeVTKViewports (\<lambda>vp. vp) [''A''] True True) = (Inr (), pendingEngine)"
    by blast+
  have "afterTwoResizes = pendingEngine"
    unfolding afterTwoResizes_def by (simp only: b snd_conv)
  with a show ?thesis by blast
qed

text \<open>
  Claim C5 as stated fails on the retry: after two resize requests during a pending
  frame the frame callback completes with the viewport still at its old target size,
  though its canvas is displayed at another size.
\<close>

theorem pending_resize_not_applied_by_frame:
  "animationFrameSet pendingEngine
   \<and> needsResize pendingEngine ''A''
   \<and> fst (renderFlaggedViewports afterTwoResizes) = Inr ()
   \<and> \<not> animationFrameSet (snd (renderFlaggedViewports afterTwoResizes))
   \<and> map_option sWidth (getViewport (snd (renderFlaggedViewports afterTwoResizes)) ''A'') = Some 200
   \<and> displayed (snd (renderFlaggedViewports afterTwoResizes)) 400 = 400
   \<and> needsResize (snd (renderFlaggedViewports afterTwoResizes)) ''A''"
  by code_simp

subsection \<open>The steps of a render pass\<close>

lemma updateViewportSize_keeps:
  "updateViewportSize vid w h pool = (c, pool') \<Longrightarrow>
     contexts pool' = contexts pool \<and> viewportToContext pool' = viewportToContext pool"
  by (auto simp: updateViewportSize_def Let_def split: option.splits)

lemma resizeOffScreen_fields [simp]:
  "viewports (resizeOffScreenCanvasForViewport vp i st) = viewports st"
  "needsRender (resizeOffScreenCanvasForViewport vp i st) = needsRender st"
  "animationFrameSet (resizeOffScreenCanvasForViewport vp i st) = animationFrameSet st"
  "devicePixelRatio (resizeOffScreenCanvasForViewport vp i st) = devicePixelRatio st"
  "length (contexts (contextPool (resizeOffScreenCanvasForViewport vp i st)))
     = length (contexts (contextPool st))"
  "viewportToContext (contextPool (resizeOffScreenCanvasForViewport vp i st))
     = viewportToContext (contextPool st)"
  by (auto simp: resizeOffScreenCanvasForViewport_def Let_def
        dest: updateViewportSize_keeps split: option.splits prod.splits)

lemma resizeOffScreen_renderers:
  "i < length (contexts (contextPool st)) \<Longrightarrow>
     renderers (contexts (contextPool (resizeOffScreenCanvasForViewport vp i st)) ! i)
       = renderers (contexts (contextPool st) ! i)"
  by (auto simp: resizeOffScreenCanvasForViewport_def Let_def setContext_def
        dest: updateViewportSize_keeps split: option.splits prod.splits)

lemma resizeOffScreen_effects:
  "\<exists>pre. effects (resizeOffScreenCanvasForViewport vp i st) = effects st @ pre
          \<and> (pre = [] \<or> (\<exists>w h. pre = [OffscreenResize i w h]))"
  by (auto simp: resizeOffScreenCanvasForViewport_def Let_def
        split: option.splits prod.splits)

lemma getMaxSizeForContext_cong:
  assumes a: "viewportToContext p = viewportToContext q"
      and b: "viewportSizes p = viewportSizes q"
  shows "getMaxSizeForContext p ci = getMaxSizeForContext q ci"
  unfolding getMaxSizeForContext_def a b by (rule refl)

lemma setContext_more [simp]:
  "viewportSizes (setContext i cd pool) = viewportSizes pool"
  "i < length (contexts pool) \<Longrightarrow> contexts (setContext i cd pool) ! i = cd"
  by (simp_all add: setContext_def)

lemma getViewport_setWidgetDraw:
  "map_of (setWidgetDraw f vps) vid
     = map_option (\<lambda>vp. vp\<lparr>widgets :=
         map (map_option (\<lambda>r. r\<lparr>draw := f (viewportId vp)\<rparr>)) (widgets vp)\<rparr>) (map_of vps vid)"
  by (induction vps) (auto simp: setWidgetDraw_def)

lemma isolateDraw_fields [simp]:
  "effects (isolateDraw vid i st) = effects st"
  "needsRender (isolateDraw vid i st) = needsRender st"
  "devicePixelRatio (isolateDraw vid i st) = devicePixelRatio st"
  "viewports (isolateDraw vid i st) = setWidgetDraw (\<lambda>owner. owner = vid) (viewports st)"
  "viewportToContext (contextPool (isolateDraw vid i st)) = viewportToContext (contextPool st)"
  "viewportSizes (contextPool (isolateDraw vid i st)) = viewportSizes (contextPool st)"
  "length (contexts (contextPool (isolateDraw vid i st))) = length (contexts (contextPool st))"
  by (simp_all add: isolateDraw_def Let_def)

lemma isolateDraw_renderers:
  "i < length (contexts (contextPool st)) \<Longrightarrow>
     renderers (contexts (contextPool (isolateDraw vid i st)) ! i)
       = setDrawOnly vid (renderers (contexts (contextPool st) ! i))"
  by (simp add: isolateDraw_def Let_def)

lemma resetDraw_fields [simp]:
  "effects (resetDraw i st) = effects st"
  "needsRender (resetDraw i st) = needsRender st"
  "devicePixelRatio (resetDraw i st) = devicePixelRatio st"
  "viewports (resetDraw i st) = setWidgetDraw (\<lambda>owner. False) (viewports st)"
  "viewportToContext (contextPool (resetDraw i st)) = viewportToContext (contextPool st)"
  "viewportSizes (contextPool (resetDraw i st)) = viewportSizes (contextPool st)"
  "length (contexts (contextPool (resetDraw i st))) = length (contexts (contextPool st))"
  by (simp_all add: resetDraw_def Let_def)

lemma resetDraw_renderers:
  "i < length (contexts (contextPool st)) \<Longrightarrow>
     renderers (contexts (contextPool (resetDraw i st)) ! i)
       = map (\<lambda>(rid, r). (rid, r\<lparr>draw := False\<rparr>)) (renderers (contexts (contextPool st) ! i))"
  by (simp add: resetDraw_def Let_def)

lemma renderWindowRender_fields [simp]:
  "effects (renderWindowRender i st) =
     effects st @ [RenderWindowRender i (drawingRenderers (contexts (contextPool st) ! i))
                     (drawingWidgets st)]"
  "needsRender (renderWindowRender i st) = needsRender st"
  "devicePixelRatio (renderWindowRender i st) = devicePixelRatio st"
  "viewports (renderWindowRender i st) = viewports st"
  "contextPool (renderWindowRender i st) = contextPool st"
  by (simp_all add: renderWindowRender_def)

lemma drawingRenderers_setDrawOnly:
  assumes "vid \<in> fst ` set rs"
  shows "set (map fst (filter (\<lambda>(rid, r). draw r) (setDrawOnly vid rs))) = {vid}"
proof -
  have "filter (\<lambda>(rid, r). draw r) (setDrawOnly vid rs)
          = setDrawOnly vid (filter (\<lambda>(rid, r). rid = vid) rs)"
    by (induction rs) (auto simp: setDrawOnly_def)
  then have "map fst (filter (\<lambda>(rid, r). draw r) (setDrawOnly vid rs))
          = map fst (filter (\<lambda>(rid, r). rid = vid) rs)"
    by (simp add: setDrawOnly_def case_prod_unfold comp_def)
  moreover have "set (map fst (filter (\<lambda>(rid, r). rid = vid) rs)) = {vid}"
    using assms by (induction rs) auto
  ultimately show ?thesis by simp
qed

lemma setWidgetDraw_mem:
  "(key, w) \<in> set (setWidgetDraw f vps) \<Longrightarrow>
     \<exists>v. (key, v) \<in> set vps
         \<and> w = v\<lparr>widgets := map (map_option (\<lambda>r. r\<lparr>draw := f (viewportId v)\<rparr>)) (widgets v)\<rparr>"
  unfolding setWidgetDraw_def by auto

lemma widgets_reset:
  assumes "(key, w) \<in> set (setWidgetDraw (\<lambda>owner. False) vps)" and "Some r \<in> set (widgets w)"
  shows "\<not> draw r"
proof -
  from setWidgetDraw_mem [OF assms(1)] obtain v where
    w: "w = v\<lparr>widgets := map (map_option (\<lambda>r. r\<lparr>draw := False\<rparr>)) (widgets v)\<rparr>"
    by blast
  with assms(2) have "Some r \<in> map_option (\<lambda>r. r\<lparr>draw := False\<rparr>) ` set (widgets v)"
    by simp
  then obtain x where "Some r = map_option (\<lambda>r. r\<lparr>draw := False\<rparr>) x"
    by blast
  then show ?thesis by (cases x) auto
qed

lemma drawingWidgetsOf_owner:
  "(owner, k) \<in> set (drawingWidgetsOf vp) \<Longrightarrow>
     owner = viewportId vp \<and> k < length (widgets vp)
     \<and> (\<exists>r. widgets vp ! k = Some r \<and> draw r)"
  by (auto simp: drawingWidgetsOf_def split: option.splits)

lemma drawingWidgets_isolated:
  assumes "(owner, k) \<in> set (concat (map (\<lambda>(key, vp). drawingWidgetsOf vp)
                               (setWidgetDraw (\<lambda>owner. owner = vid) vps)))"
  shows "owner = vid"
proof -
  from assms obtain key w where
    m: "(key, w) \<in> set (setWidgetDraw (\<lambda>owner. owner = vid) vps)"
    and d: "(owner, k) \<in> set (drawingWidgetsOf w)"
    by auto
  from setWidgetDraw_mem [OF m] obtain v where
    w: "w = v\<lparr>widgets := map (map_option (\<lambda>r. r\<lparr>draw := (viewportId v = vid)\<rparr>)) (widgets v)\<rparr>"
    by blast
  from drawingWidgetsOf_owner [OF d] obtain r where
    o: "owner = viewportId w" and k: "k < length (widgets w)"
    and r: "widgets w ! k = Some r" "draw r"
    by blast
  from w k r(1) have "\<exists>r0. r = r0\<lparr>draw := (viewportId v = vid)\<rparr>"
    by (cases "widgets v ! k") auto
  with r(2) have "viewportId v = vid" by auto
  with o w show ?thesis by simp
qed

lemma renderers_reset:
  "(rid, r) \<in> set (map (\<lambda>(rid, r). (rid, r\<lparr>draw := False\<rparr>)) rs) \<Longrightarrow> \<not> draw r"
  by auto

lemma copyToOnscreenCanvas_shape:
  "\<exists>post st' d.
     copyToOnscreenCanvas vp st = (Inr (Some d), st')
     \<and> effects st' = effects st @ post
          @ [DrawImage (viewportId vp) 0
               (snd (getMaxSizeForContext (contextPool st)
                       (getContextIndexForViewport (contextPool st) (viewportId vp)))
                  - sHeight vp)
               (sWidth vp) (sHeight vp)]
     \<and> (post = [] \<or> post = [CanvasResize (viewportId vp) (sWidth vp) (sHeight vp)])
     \<and> contextPool st' = contextPool st
     \<and> needsRender st' = needsRender st
     \<and> (viewports st' = viewports st
          \<or> (\<exists>cv. viewports st'
                  = AList.update (viewportId vp) (vp\<lparr>viewportCanvas := cv\<rparr>) (viewports st)))"
  by (cases "updateCanvasSizeAndAspectRatio (pixelRatio st) (viewportCanvas vp)
               (Some (sWidth vp, sHeight vp))")
     (auto simp: copyToOnscreenCanvas_def Let_def emit_def setViewport_def)

lemma set_update_subset: "set (AList.update k v xs) \<subseteq> insert (k, v) (set xs)"
  by (induction xs) auto

lemma rect_update_keys:
  "fst ` set (map (\<lambda>(rid, r). if rid = vid then (rid, f r) else (rid, r)) rs) = fst ` set rs"
  by (induction rs) auto

lemma gpu_pass:
  assumes c: "clientWidth (viewportCanvas vp) \<noteq> 0" "clientHeight (viewportCanvas vp) \<noteq> 0"
      and s: "\<not> sWidth vp < VIEWPORT_MIN_SIZE st" "\<not> sHeight vp < VIEWPORT_MIN_SIZE st"
      and t: "\<not> viewportTypeUsesCustomRenderingPipeline (viewportType vp)"
      and g: "\<not> useCPURendering st"
      and v: "getViewport st (viewportId vp) = Some vp"
      and i: "i < length (contexts (contextPool st))"
  shows "\<exists>pre subs wids post d st'.
     renderViewportWithContext vp i st = (Inr (Some d), st')
     \<and> effects st' = effects st @ pre @ [RenderWindowRender i subs wids] @ post
          @ [DrawImage (viewportId vp) 0
               (snd (getMaxSizeForContext (contextPool st')
                       (getContextIndexForViewport (contextPool st') (viewportId vp)))
                  - sHeight vp)
               (sWidth vp) (sHeight vp)]
     \<and> (pre = [] \<or> (\<exists>w h. pre = [OffscreenResize i w h]))
     \<and> (post = [] \<or> post = [CanvasResize (viewportId vp) (sWidth vp) (sHeight vp)])
     \<and> set subs = {viewportId vp}
     \<and> (\<forall>(owner, k)\<in>set wids. owner = viewportId vp)
     \<and> (\<forall>k<length (widgets vp). widgets vp ! k \<noteq> None \<longrightarrow> (viewportId vp, k) \<in> set wids)
     \<and> (\<forall>(rid, r)\<in>set (renderers (contexts (contextPool st') ! i)). \<not> draw r)
     \<and> (\<forall>(key, w)\<in>set (viewports st'). \<forall>r. Some r \<in> set (widgets w) \<longrightarrow> \<not> draw r)
     \<and> needsRender st' = needsRender st"
proof -
  define vid where "vid = viewportId vp"
  define cd where "cd = contexts (contextPool st) ! i"
  define st1 where "st1 = (if getRenderer cd vid = None
         then st\<lparr>contextPool := setContext i (addRenderer vid cd) (contextPool st)\<rparr> else st)"
  define st2 where "st2 = resizeOffScreenCanvasForViewport vp i st1"
  define maxSize where "maxSize = getMaxSizeForContext (contextPool st2)
         (getContextIndexForViewport (contextPool st2) vid)"
  define cd2 where "cd2 = contexts (contextPool st2) ! i"
  define st3 where "st3 = st2\<lparr>contextPool := setContext i
         (cd2\<lparr>renderers := map (\<lambda>(rid, r). if rid = vid
                then (rid, r\<lparr>xEnd := rectEnd (sWidth vp) (fst maxSize),
                              yEnd := rectEnd (sHeight vp) (snd maxSize)\<rparr>)
                else (rid, r)) (renderers cd2)\<rparr>) (contextPool st2)\<rparr>"
  define st4 where "st4 = isolateDraw vid i st3"
  define st5 where "st5 = renderWindowRender i st4"
  define st6 where "st6 = resetDraw i st5"
  have run: "renderViewportWithContext vp i st =
      (case getViewport st6 vid of None \<Rightarrow> copyToOnscreenCanvas vp st6
       | Some vp6 \<Rightarrow> copyToOnscreenCanvas vp6 st6)"
    using c s t g
    unfolding renderViewportWithContext_def Let_def st6_def st5_def st4_def st3_def cd2_def
      maxSize_def st2_def st1_def cd_def vid_def
    by simp
  \<comment> \<open>the renderer of the viewport is present from \<open>st1\<close> on\<close>
  have i1: "i < length (contexts (contextPool st1))"
    using i by (simp add: st1_def)
  have k1: "vid \<in> fst ` set (renderers (contexts (contextPool st1) ! i))"
  proof (cases "getRenderer cd vid = None")
    case True
    then show ?thesis using i by (simp add: st1_def addRenderer_def dom_update)
  next
    case False
    then have "map_of (renderers cd) vid \<noteq> None" by (simp add: getRenderer_def)
    then have m: "vid \<in> fst ` set (renderers cd)" by (simp add: map_of_eq_None_iff)
    have "st1 = st" unfolding st1_def by (simp only: False if_False)
    with m show ?thesis by (simp add: cd_def)
  qed
  have e1: "effects st1 = effects st" and n1: "needsRender st1 = needsRender st"
    and v1: "viewports st1 = viewports st"
    by (simp_all add: st1_def)
  have i2: "i < length (contexts (contextPool st2))"
    using i1 by (simp add: st2_def)
  have k2: "vid \<in> fst ` set (renderers cd2)"
    unfolding cd2_def st2_def using k1 resizeOffScreen_renderers [OF i1] by simp
  from resizeOffScreen_effects [of vp i st1] obtain pre where
    pre: "effects st2 = effects st @ pre" "pre = [] \<or> (\<exists>w h. pre = [OffscreenResize i w h])"
    unfolding st2_def e1 by blast
  have n2: "needsRender st2 = needsRender st" and v2: "viewports st2 = viewports st"
    by (simp_all add: st2_def n1 v1)
  have i3: "i < length (contexts (contextPool st3))"
    using i2 by (simp add: st3_def)
  have "renderers (contexts (contextPool st3) ! i)
          = map (\<lambda>(rid, r). if rid = vid
                then (rid, r\<lparr>xEnd := rectEnd (sWidth vp) (fst maxSize),
                              yEnd := rectEnd (sHeight vp) (snd maxSize)\<rparr>)
                else (rid, r)) (renderers cd2)"
    using i2 by (simp add: st3_def)
  then have "fst ` set (renderers (contexts (contextPool st3) ! i)) = fst ` set (renderers cd2)"
    by (simp only: rect_update_keys)
  with k2 have k3: "vid \<in> fst ` set (renderers (contexts (contextPool st3) ! i))"
    by simp
  have e3: "effects st3 = effects st @ pre" and n3: "needsRender st3 = needsRender st"
    and v3: "viewports st3 = viewports st"
    by (simp_all add: st3_def pre(1) n2 v2)
  have i4: "i < length (contexts (contextPool st4))"
    using i3 by (simp add: st4_def)
  define subs where "subs = drawingRenderers (contexts (contextPool st4) ! i)"
  define wids where "wids = drawingWidgets st4"
  have subs: "set subs = {vid}"
    unfolding subs_def drawingRenderers_def st4_def isolateDraw_renderers [OF i3]
    by (rule drawingRenderers_setDrawOnly [OF k3])
  have wids: "\<forall>(owner, k)\<in>set wids. owner = vid"
  proof (intro ballI)
    fix x assume x: "x \<in> set wids"
    obtain owner k where ok: "x = (owner, k)" by (cases x)
    have v4: "viewports st4 = setWidgetDraw (\<lambda>owner. owner = vid) (viewports st3)"
      by (simp add: st4_def)
    from x ok have "(owner, k) \<in> set (concat (map (\<lambda>(key, vp). drawingWidgetsOf vp)
                               (setWidgetDraw (\<lambda>owner. owner = vid) (viewports st3))))"
      unfolding wids_def drawingWidgets_def v4 by simp
    then have "owner = vid" by (rule drawingWidgets_isolated)
    with ok show "case x of (owner, k) \<Rightarrow> owner = vid" by simp
  qed
  have own: "\<forall>k<length (widgets vp). widgets vp ! k \<noteq> None \<longrightarrow> (vid, k) \<in> set wids"
  proof (intro allI impI)
    fix k assume k: "k < length (widgets vp)" and nn: "widgets vp ! k \<noteq> None"
    define w where "w = vp\<lparr>widgets :=
        map (map_option (\<lambda>r. r\<lparr>draw := (viewportId vp = vid)\<rparr>)) (widgets vp)\<rparr>"
    have "map_of (viewports st4) vid = Some w"
      using v by (simp add: st4_def v3 getViewport_setWidgetDraw getViewport_def vid_def w_def)
    then have m: "(vid, w) \<in> set (viewports st4)" by (rule map_of_SomeD)
    from nn obtain r where r: "widgets vp ! k = Some r" by blast
    have lw: "length (widgets w) = length (widgets vp)" and iw: "viewportId w = vid"
      by (simp_all add: w_def vid_def)
    have wk: "widgets w ! k = Some (r\<lparr>draw := True\<rparr>)"
      using k r by (simp add: w_def vid_def)
    have "k \<in> set (filter (\<lambda>k. case widgets w ! k of None \<Rightarrow> False | Some r \<Rightarrow> draw r)
                        [0..<length (widgets w)])"
      using k by (simp add: lw wk)
    then have "(vid, k) \<in> set (drawingWidgetsOf w)"
      unfolding drawingWidgetsOf_def iw set_map by (rule imageI)
    with m show "(vid, k) \<in> set wids"
      unfolding wids_def drawingWidgets_def by force
  qed
  have e5: "effects st5 = effects st @ pre @ [RenderWindowRender i subs wids]"
    by (simp add: st5_def st4_def e3 subs_def wids_def)
  have i5: "i < length (contexts (contextPool st5))"
    using i4 by (simp add: st5_def)
  have e6: "effects st6 = effects st @ pre @ [RenderWindowRender i subs wids]"
    by (simp add: st6_def e5)
  have n6: "needsRender st6 = needsRender st"
    by (simp add: st6_def st5_def st4_def n3)
  have v6: "viewports st6 = setWidgetDraw (\<lambda>owner. False)
                              (setWidgetDraw (\<lambda>owner. owner = vid) (viewports st))"
    by (simp add: st6_def st5_def st4_def v3)
  have r6: "\<forall>(rid, r)\<in>set (renderers (contexts (contextPool st6) ! i)). \<not> draw r"
  proof (intro ballI)
    fix x assume x: "x \<in> set (renderers (contexts (contextPool st6) ! i))"
    obtain rid r where rr: "x = (rid, r)" by (cases x)
    from x rr have "(rid, r) \<in> set (map (\<lambda>(rid, r). (rid, r\<lparr>draw := False\<rparr>))
                                   (renderers (contexts (contextPool st5) ! i)))"
      unfolding st6_def resetDraw_renderers [OF i5] by simp
    then have "\<not> draw r" by (rule renderers_reset)
    with rr show "case x of (rid, r) \<Rightarrow> \<not> draw r" by simp
  qed
  have w6: "\<forall>(key, w)\<in>set (viewports st6). \<forall>r. Some r \<in> set (widgets w) \<longrightarrow> \<not> draw r"
  proof (intro ballI)
    fix x assume x: "x \<in> set (viewports st6)"
    obtain key w where kw: "x = (key, w)" by (cases x)
    have v6': "viewports st6 = setWidgetDraw (\<lambda>owner. False) (viewports st5)"
      by (simp add: st6_def)
    from x kw have m: "(key, w) \<in> set (setWidgetDraw (\<lambda>owner. False) (viewports st5))"
      unfolding v6' by simp
    have "\<forall>r. Some r \<in> set (widgets w) \<longrightarrow> \<not> draw r"
      using widgets_reset [OF m] by blast
    with kw show "case x of (key, w) \<Rightarrow> \<forall>r. Some r \<in> set (widgets w) \<longrightarrow> \<not> draw r"
      by simp
  qed
  obtain vp6 where g6: "getViewport st6 vid = Some vp6"
    and id6: "viewportId vp6 = viewportId vp" "sWidth vp6 = sWidth vp" "sHeight vp6 = sHeight vp"
    using v by (auto simp: getViewport_def v6 getViewport_setWidgetDraw vid_def)
  have m6: "(vid, vp6) \<in> set (viewports st6)"
    using g6 by (simp add: getViewport_def map_of_SomeD)
  from copyToOnscreenCanvas_shape [of vp6 st6] obtain post st' d where
    cp: "copyToOnscreenCanvas vp6 st6 = (Inr (Some d), st')"
        "effects st' = effects st6 @ post
          @ [DrawImage (viewportId vp6) 0
               (snd (getMaxSizeForContext (contextPool st6)
                       (getContextIndexForViewport (contextPool st6) (viewportId vp6)))
                  - sHeight vp6)
               (sWidth vp6) (sHeight vp6)]"
        "post = [] \<or> post = [CanvasResize (viewportId vp6) (sWidth vp6) (sHeight vp6)]"
        "contextPool st' = contextPool st6"
        "needsRender st' = needsRender st6"
        "viewports st' = viewports st6
          \<or> (\<exists>cv. viewports st'
                  = AList.update (viewportId vp6) (vp6\<lparr>viewportCanvas := cv\<rparr>) (viewports st6))"
    by blast
  have res: "renderViewportWithContext vp i st = (Inr (Some d), st')"
    using run g6 cp(1) by simp
  have eff: "effects st' = effects st @ pre @ [RenderWindowRender i subs wids] @ post
          @ [DrawImage (viewportId vp) 0
               (snd (getMaxSizeForContext (contextPool st')
                       (getContextIndexForViewport (contextPool st') (viewportId vp)))
                  - sHeight vp)
               (sWidth vp) (sHeight vp)]"
    using cp(2) by (simp add: e6 id6 cp(4))
  have post: "post = [] \<or> post = [CanvasResize (viewportId vp) (sWidth vp) (sHeight vp)]"
    using cp(3) by (simp add: id6)
  have rr: "\<forall>(rid, r)\<in>set (renderers (contexts (contextPool st') ! i)). \<not> draw r"
    using r6 by (simp add: cp(4))
  have ww: "\<forall>(key, w)\<in>set (viewports st'). \<forall>r. Some r \<in> set (widgets w) \<longrightarrow> \<not> draw r"
  proof (intro ballI)
    fix x assume x: "x \<in> set (viewports st')"
    obtain key w where kw: "x = (key, w)" by (cases x)
    have "\<forall>r. Some r \<in> set (widgets w) \<longrightarrow> \<not> draw r"
    proof (intro allI impI)
      fix r assume r: "Some r \<in> set (widgets w)"
      from cp(6) x kw have "(key, w) \<in> set (viewports st6)
          \<or> (\<exists>cv. w = vp6\<lparr>viewportCanvas := cv\<rparr>)"
        using set_update_subset by fastforce
      then show "\<not> draw r"
      proof
        assume "(key, w) \<in> set (viewports st6)"
        with w6 r show ?thesis by blast
      next
        assume "\<exists>cv. w = vp6\<lparr>viewportCanvas := cv\<rparr>"
        then have "widgets w = widgets vp6" by auto
        with r m6 w6 show ?thesis by force
      qed
    qed
    with kw show "case x of (key, w) \<Rightarrow> \<forall>r. Some r \<in> set (widgets w) \<longrightarrow> \<not> draw r"
      by simp
  qed
  have nn: "needsRender st' = needsRender st" by (simp add: cp(5) n6)
  from res eff pre(2) post subs wids own rr ww nn show ?thesis
    unfolding vid_def by blast
qed

subsection \<open>Order of resize, draw and copy\<close>

text \<open>
  Claim C6. In a GPU render pass (canvas displayed, size not below the minimum, engine's
  own viewport, context in range) the offscreen canvas is resized, if at all, before the
  render window draws; the on-screen canvas is resized, if at all, and receives the copy
  only after the draw; and the copied source rectangle starts at the vertical offset
  maximum surface height minus viewport height.
\<close>

theorem canvas_changes_follow_the_draw:
  assumes "clientWidth (viewportCanvas vp) \<noteq> 0" and "clientHeight (viewportCanvas vp) \<noteq> 0"
      and "\<not> sWidth vp < VIEWPORT_MIN_SIZE st" and "\<not> sHeight vp < VIEWPORT_MIN_SIZE st"
      and "\<not> viewportTypeUsesCustomRenderingPipeline (viewportType vp)"
      and "\<not> useCPURendering st"
      and "getViewport st (viewportId vp) = Some vp"
      and "i < length (contexts (contextPool st))"
  shows "\<exists>pre subs wids post d st'.
     renderViewportWithContext vp i st = (Inr (Some d), st')
     \<and> effects st' = effects st @ pre @ [RenderWindowRender i subs wids] @ post
          @ [DrawImage (viewportId vp) 0
               (snd (getMaxSizeForContext (contextPool st')
                       (getContextIndexForViewport (contextPool st') (viewportId vp)))
                  - sHeight vp)
               (sWidth vp) (sHeight vp)]
     \<and> (pre = [] \<or> (\<exists>w h. pre = [OffscreenResize i w h]))
     \<and> (post = [] \<or> post = [CanvasResize (viewportId vp) (sWidth vp) (sHeight vp)])"
proof -
  from gpu_pass [OF assms] obtain pre subs wids post d st' where
    f: "renderViewportWithContext vp i st = (Inr (Some d), st')"
       "effects st' = effects st @ pre @ [RenderWindowRender i subs wids] @ post
          @ [DrawImage (viewportId vp) 0
               (snd (getMaxSizeForContext (contextPool st')
                       (getContextIndexForViewport (contextPool st') (viewportId vp)))
                  - sHeight vp)
               (sWidth vp) (sHeight vp)]"
       "pre = [] \<or> (\<exists>w h. pre = [OffscreenResize i w h])"
       "post = [] \<or> post = [CanvasResize (viewportId vp) (sWidth vp) (sHeight vp)]"
       "set subs = {viewportId vp}"
       "\<forall>(owner, k)\<in>set wids. owner = viewportId vp"
       "\<forall>k<length (widgets vp). widgets vp ! k \<noteq> None \<longrightarrow> (viewportId vp, k) \<in> set wids"
       "\<forall>(rid, r)\<in>set (renderers (contexts (contextPool st') ! i)). \<not> draw r"
       "\<forall>(key, w)\<in>set (viewports st'). \<forall>r. Some r \<in> set (widgets w) \<longrightarrow> \<not> draw r"
    by (elim exE conjE)
  show ?thesis
    by (intro exI conjI) (rule f(1), rule f(2), rule f(3), rule f(4))
qed

theorem canvas_changes_follow_the_draw_witness:
  "\<exists>pre subs wids post d st'.
     renderViewportWithContext widgetViewport 0 widgetEngine = (Inr (Some d), st')
     \<and> effects st' = effects widgetEngine @ pre @ [RenderWindowRender 0 subs wids] @ post
          @ [DrawImage (viewportId widgetViewport) 0
               (snd (getMaxSizeForContext (contextPool st')
                       (getContextIndexForViewport (contextPool st') (viewportId widgetViewport)))
                  - sHeight widgetViewport)
               (sWidth widgetViewport) (sHeight widgetViewport)]
     \<and> (pre = [] \<or> (\<exists>w h. pre = [OffscreenResize 0 w h]))
     \<and> (post = [] \<or> post = [CanvasResize (viewportId widgetViewport) (sWidth widgetViewport) (sHeight widgetViewport)])"
  by (rule canvas_changes_follow_the_draw) code_simp+

subsection \<open>Draw flags\<close>

text \<open>
  Claim C7, as amended. When the render window draws in a GPU pass, exactly the
  sub-renderer of the viewport being rendered has its draw flag set among the
  sub-renderers of that surface; a widget renderer has its flag set exactly when it
  belongs to the viewport being rendered; after the draw every sub-renderer of the
  surface and every widget renderer has its flag reset.
\<close>

theorem draw_flags_during_and_after_pass:
  assumes "clientWidth (viewportCanvas vp) \<noteq> 0" and "clientHeight (viewportCanvas vp) \<noteq> 0"
      and "\<not> sWidth vp < VIEWPORT_MIN_SIZE st" and "\<not> sHeight vp < VIEWPORT_MIN_SIZE st"
      and "\<not> viewportTypeUsesCustomRenderingPipeline (viewportType vp)"
      and "\<not> useCPURendering st"
      and "getViewport st (viewportId vp) = Some vp"
      and "i < length (contexts (contextPool st))"
  shows "\<exists>pre subs wids rest d st'.
     renderViewportWithContext vp i st = (Inr (Some d), st')
     \<and> effects st' = effects st @ pre @ [RenderWindowRender i subs wids] @ rest
     \<and> set subs = {viewportId vp}
     \<and> (\<forall>(owner, k)\<in>set wids. owner = viewportId vp)
     \<and> (\<forall>k<length (widgets vp). widgets vp ! k \<noteq> None \<longrightarrow> (viewportId vp, k) \<in> set wids)
     \<and> (\<forall>(rid, r)\<in>set (renderers (contexts (contextPool st') ! i)). \<not> draw r)
     \<and> (\<forall>(key, w)\<in>set (viewports st'). \<forall>r. Some r \<in> set (widgets w) \<longrightarrow> \<not> draw r)"
proof -
  from gpu_pass [OF assms] obtain pre subs wids post d st' where
    f: "renderViewportWithContext vp i st = (Inr (Some d), st')"
       "effects st' = effects st @ pre @ [RenderWindowRender i subs wids] @ post
          @ [DrawImage (viewportId vp) 0
               (snd (getMaxSizeForContext (contextPool st')
                       (getContextIndexForViewport (contextPool st') (viewportId vp)))
                  - sHeight vp)
               (sWidth vp) (sHeight vp)]"
       "pre = [] \<or> (\<exists>w h. pre = [OffscreenResize i w h])"
       "post = [] \<or> post = [CanvasResize (viewportId vp) (sWidth vp) (sHeight vp)]"
       "set subs = {viewportId vp}"
       "\<forall>(owner, k)\<in>set wids. owner = viewportId vp"
       "\<forall>k<length (widgets vp). widgets vp ! k \<noteq> None \<longrightarrow> (viewportId vp, k) \<in> set wids"
       "\<forall>(rid, r)\<in>set (renderers (contexts (contextPool st') ! i)). \<not> draw r"
       "\<forall>(key, w)\<in>set (viewports st'). \<forall>r. Some r \<in> set (widgets w) \<longrightarrow> \<not> draw r"
    by (elim exE conjE)
  show ?thesis
    by (intro exI conjI)
       (rule f(1), rule f(2), rule f(5), rule f(6), rule f(7), rule f(8), rule f(9))
qed

theorem draw_flags_during_and_after_pass_witness:
  "\<exists>pre subs wids rest d st'.
     renderViewportWithContext widgetViewport 0 widgetEngine = (Inr (Some d), st')
     \<and> effects st' = effects widgetEngine @ pre @ [RenderWindowRender 0 subs wids] @ rest
     \<and> set subs = {viewportId widgetViewport}
     \<and> (\<forall>(owner, k)\<in>set wids. owner = viewportId widgetViewport)
     \<and> (\<forall>k<length (widgets widgetViewport). widgets widgetViewport ! k \<noteq> None \<longrightarrow> (viewportId widgetViewport, k) \<in> set wids)
     \<and> (\<forall>(rid, r)\<in>set (renderers (contexts (contextPool st') ! 0)). \<not> draw r)
     \<and> (\<forall>(key, w)\<in>set (viewports st'). \<forall>r. Some r \<in> set (widgets w) \<longrightarrow> \<not> draw r)"
  by (rule draw_flags_during_and_after_pass) code_simp+

text \<open>
  Claim C7 as stated fails for the widget renderers of the rendered viewport itself:
  theirs is set along with the sub-renderer's.
\<close>

theorem own_widget_renderer_draws:
  "getViewport widgetEngine ''A'' = Some widgetViewport
   \<and> widgets widgetViewport = [Some newRenderer]
   \<and> effects (snd (renderViewportWithContext widgetViewport 0 widgetEngine))
       = effects widgetEngine
         @ [RenderWindowRender 0 [''A''] [(''A'', 0)], DrawImage ''A'' 0 0 300 200]"
  by code_simp

subsection \<open>Skipped passes and the dirty set\<close>

lemma copyToOnscreenCanvas_needsRender:
  "needsRender (snd (copyToOnscreenCanvas vp st)) = needsRender st"
proof -
  from copyToOnscreenCanvas_shape [of vp st] obtain st' d where
    "copyToOnscreenCanvas vp st = (Inr (Some d), st')" "needsRender st' = needsRender st"
    by (elim exE conjE)
  then show ?thesis by simp
qed

lemma gpu_pass_needsRender:
  assumes c: "clientWidth (viewportCanvas vp) \<noteq> 0" "clientHeight (viewportCanvas vp) \<noteq> 0"
      and s: "\<not> sWidth vp < VIEWPORT_MIN_SIZE st" "\<not> sHeight vp < VIEWPORT_MIN_SIZE st"
      and t: "\<not> viewportTypeUsesCustomRenderingPipeline (viewportType vp)"
      and g: "\<not> useCPURendering st"
  shows "needsRender (snd (renderViewportWithContext vp i st)) = needsRender st"
proof -
  define vid where "vid = viewportId vp"
  define cd where "cd = contexts (contextPool st) ! i"
  define st1 where "st1 = (if getRenderer cd vid = None
         then st\<lparr>contextPool := setContext i (addRenderer vid cd) (contextPool st)\<rparr> else st)"
  define st2 where "st2 = resizeOffScreenCanvasForViewport vp i st1"
  define maxSize where "maxSize = getMaxSizeForContext (contextPool st2)
         (getContextIndexForViewport (contextPool st2) vid)"
  define cd2 where "cd2 = contexts (contextPool st2) ! i"
  define st3 where "st3 = st2\<lparr>contextPool := setContext i
         (cd2\<lparr>renderers := map (\<lambda>(rid, r). if rid = vid
                then (rid, r\<lparr>xEnd := rectEnd (sWidth vp) (fst maxSize),
                              yEnd := rectEnd (sHeight vp) (snd maxSize)\<rparr>)
                else (rid, r)) (renderers cd2)\<rparr>) (contextPool st2)\<rparr>"
  define st6 where "st6 = resetDraw i (renderWindowRender i (isolateDraw vid i st3))"
  have run: "renderViewportWithContext vp i st =
      (case getViewport st6 vid of None \<Rightarrow> copyToOnscreenCanvas vp st6
       | Some vp6 \<Rightarrow> copyToOnscreenCanvas vp6 st6)"
    using c s t g
    unfolding renderViewportWithContext_def Let_def st6_def st3_def cd2_def
      maxSize_def st2_def st1_def cd_def vid_def
    by simp
  have n1: "needsRender st1 = needsRender st" by (simp add: st1_def)
  have n2: "needsRender st2 = needsRender st" by (simp add: st2_def n1)
  have n3: "needsRender st3 = needsRender st" by (simp add: st3_def n2)
  have n6: "needsRender st6 = needsRender st" by (simp add: st6_def n3)
  show ?thesis
    unfolding run by (cases "getViewport st6 vid") (simp_all add: copyToOnscreenCanvas_needsRender n6)
qed

lemma renderViewportWithContext_needsRender:
  "needsRender (snd (renderViewportWithContext vp i st)) = needsRender st"
proof (cases "clientWidth (viewportCanvas vp) = 0 \<or> clientHeight (viewportCanvas vp) = 0")
  case True
  then show ?thesis by (simp add: renderViewportWithContext_def)
next
  case c: False
  show ?thesis
  proof (cases "sWidth vp < VIEWPORT_MIN_SIZE st \<or> sHeight vp < VIEWPORT_MIN_SIZE st")
    case True
    with c show ?thesis by (simp add: renderViewportWithContext_def)
  next
    case s: False
    show ?thesis
    proof (cases "viewportTypeUsesCustomRenderingPipeline (viewportType vp)")
      case True
      with c s show ?thesis by (simp add: renderViewportWithContext_def)
    next
      case t: False
      show ?thesis
      proof (cases "useCPURendering st")
        case True
        with c s t show ?thesis by (simp add: renderViewportWithContext_def)
      next
        case False
        with c s t show ?thesis by (intro gpu_pass_needsRender) simp_all
      qed
    qed
  qed
qed

lemma pipeline_needsRender:
  "needsRender (snd (renderViewportUsingCustomOrVtkPipeline vp st)) = needsRender st"
  by (simp add: renderViewportUsingCustomOrVtkPipeline_def Let_def
        renderViewportWithContext_needsRender
        split: option.splits contextIndex.splits)

lemma setRendered_needsRender [simp]:
  "needsRender (setRendered vid st) = needsRender st"
  by (simp add: setRendered_def split: option.splits)

lemma setRendered_flags [simp]:
  "animationFrameSet (setRendered vid st) = animationFrameSet st"
  by (simp add: setRendered_def split: option.splits)

lemma renderEach_needsRender:
  "renderEach vids st = (Inr ds, st') \<Longrightarrow> needsRender st' = needsRender st - set vids"
proof (induction vids arbitrary: st ds)
  case Nil
  then show ?case by simp
next
  case (Cons vid vids)
  from Cons.prems obtain vp where vp: "getViewport st vid = Some vp"
    by (cases "getViewport st vid") auto
  obtain r st1 where p: "renderViewportUsingCustomOrVtkPipeline vp st = (r, st1)"
    by (cases "renderViewportUsingCustomOrVtkPipeline vp st")
  have n1: "needsRender st1 = needsRender st"
    using pipeline_needsRender [of vp st] p by simp
  from Cons.prems vp p obtain d where r: "r = Inr d"
    by (cases r) (auto simp: andThen_def)
  define st3 where "st3 = (setRendered vid st1)\<lparr>needsRender := needsRender (setRendered vid st1) - {vid}\<rparr>"
  have n3: "needsRender st3 = needsRender st - {vid}"
    by (simp add: st3_def n1)
  obtain r' st4 where q: "renderEach vids st3 = (r', st4)"
    by (cases "renderEach vids st3")
  from Cons.prems vp p r q have "\<exists>ds'. r' = Inr ds' \<and> st4 = st'"
    by (cases r') (auto simp: andThen_def Let_def st3_def)
  then obtain ds' where "renderEach vids st3 = (Inr ds', st')" using q by auto
  from Cons.IH [OF this] have "needsRender st' = needsRender st3 - set vids" .
  with n3 show ?case by auto
qed

lemma fold_trigger_fields [simp]:
  "needsRender (fold triggerImageRendered ds st) = needsRender st"
  "animationFrameSet (fold triggerImageRendered ds st) = animationFrameSet st"
  by (induction ds arbitrary: st) (simp_all add: triggerImageRendered_def emit_def split: option.splits)

text \<open>
  Claim C2, as amended. A GPU-driven viewport whose canvas reports zero displayed size
  is skipped silently, and one whose requested size is below the minimum with a warning
  only; neither raises an exception or yields an event. When the frame callback
  completes no frame is pending and no viewport of the engine is left in the dirty set,
  the skipped ones included.
\<close>

theorem skipped_pass_and_dirty_set:
  "(clientWidth (viewportCanvas vp) = 0 \<or> clientHeight (viewportCanvas vp) = 0
      \<longrightarrow> renderViewportWithContext vp i st = (Inr None, st))
   \<and> (clientWidth (viewportCanvas vp) \<noteq> 0 \<and> clientHeight (viewportCanvas vp) \<noteq> 0
        \<and> (sWidth vp < VIEWPORT_MIN_SIZE st \<or> sHeight vp < VIEWPORT_MIN_SIZE st)
      \<longrightarrow> renderViewportWithContext vp i st
            = (Inr None, emit (Warn ''Viewport is too small'') st))
   \<and> (renderFlaggedViewports st = (Inr (), st')
      \<longrightarrow> \<not> animationFrameSet st'
          \<and> (\<forall>vid\<in>fst ` set (viewports st). vid \<notin> needsRender st'))"
proof (intro conjI impI)
  assume "clientWidth (viewportCanvas vp) = 0 \<or> clientHeight (viewportCanvas vp) = 0"
  then show "renderViewportWithContext vp i st = (Inr None, st)"
    by (simp add: renderViewportWithContext_def)
next
  assume "clientWidth (viewportCanvas vp) \<noteq> 0 \<and> clientHeight (viewportCanvas vp) \<noteq> 0
        \<and> (sWidth vp < VIEWPORT_MIN_SIZE st \<or> sHeight vp < VIEWPORT_MIN_SIZE st)"
  then show "renderViewportWithContext vp i st
            = (Inr None, emit (Warn ''Viewport is too small'') st)"
    by (simp add: renderViewportWithContext_def)
next
  assume run: "renderFlaggedViewports st = (Inr (), st')"
  define toRender where
    "toRender = filter (\<lambda>(vid, vp). vid \<in> needsRender st) (viewports st)"
  have nd: "\<not> hasBeenDestroyed st"
    using run by (auto simp: renderFlaggedViewports_def)
  have both: "\<not> animationFrameSet st'
              \<and> needsRender st' = needsRender st - set (map fst toRender)"
  proof (cases "toRender = []")
    case True
    with run nd have "st' = st\<lparr>animationFrameSet := False, animationFrameHandle := None\<rparr>"
      by (simp add: renderFlaggedViewports_def Let_def toRender_def)
    with True show ?thesis by simp
  next
    case False
    obtain r st1 where e: "renderEach (map fst toRender) st = (r, st1)"
      by (cases "renderEach (map fst toRender) st")
    from run nd False e obtain ds where r: "r = Inr ds"
      and st': "st' = fold triggerImageRendered ds
                       (st1\<lparr>animationFrameSet := False, animationFrameHandle := None\<rparr>)"
      by (cases r)
         (auto simp: renderFlaggedViewports_def Let_def toRender_def [symmetric] andThen_def)
    from renderEach_needsRender [of "map fst toRender" st ds st1] e r
    have "needsRender st1 = needsRender st - set (map fst toRender)" by simp
    then show ?thesis by (simp add: st')
  qed
  then show "\<not> animationFrameSet st'" by simp
  show "\<forall>vid\<in>fst ` set (viewports st). vid \<notin> needsRender st'"
  proof
    fix vid assume "vid \<in> fst ` set (viewports st)"
    then obtain w where w: "(vid, w) \<in> set (viewports st)" by auto
    show "vid \<notin> needsRender st'"
    proof
      assume "vid \<in> needsRender st'"
      with both have a: "vid \<in> needsRender st" and b: "vid \<notin> set (map fst toRender)"
        by auto
      from a w have "(vid, w) \<in> set toRender" by (simp add: toRender_def)
      then have "vid \<in> set (map fst toRender)" by force
      with b show False by simp
    qed
  qed
qed

theorem skipped_pass_and_dirty_set_witness:
  "renderViewportWithContext hiddenViewport 0 hiddenEngine = (Inr None, hiddenEngine)
   \<and> renderViewportWithContext tinyViewport 0 hiddenEngine
       = (Inr None, emit (Warn ''Viewport is too small'') hiddenEngine)
   \<and> \<not> animationFrameSet (snd (renderFlaggedViewports hiddenEngine))
   \<and> ''A'' \<notin> needsRender (snd (renderFlaggedViewports hiddenEngine))"
proof -
  have h: "clientWidth (viewportCanvas hiddenViewport) = 0" by code_simp
  have t: "clientWidth (viewportCanvas tinyViewport) \<noteq> 0 \<and> clientHeight (viewportCanvas tinyViewport) \<noteq> 0
           \<and> (sWidth tinyViewport < VIEWPORT_MIN_SIZE hiddenEngine
                \<or> sHeight tinyViewport < VIEWPORT_MIN_SIZE hiddenEngine)"
    by code_simp
  have f: "renderFlaggedViewports hiddenEngine = (Inr (), snd (renderFlaggedViewports hiddenEngine))"
    by code_simp
  from skipped_pass_and_dirty_set [of hiddenViewport 0 hiddenEngine] h
  have a: "renderViewportWithContext hiddenViewport 0 hiddenEngine = (Inr None, hiddenEngine)"
    by blast
  from skipped_pass_and_dirty_set [of tinyViewport 0 hiddenEngine] t
  have b: "renderViewportWithContext tinyViewport 0 hiddenEngine
       = (Inr None, emit (Warn ''Viewport is too small'') hiddenEngine)"
    by blast
  from skipped_pass_and_dirty_set [of _ _ hiddenEngine "snd (renderFlaggedViewports hiddenEngine)"] f
  have c: "\<not> animationFrameSet (snd (renderFlaggedViewports hiddenEngine))
           \<and> (\<forall>vid\<in>fst ` set (viewports hiddenEngine).
                 vid \<notin> needsRender (snd (renderFlaggedViewports hiddenEngine)))"
    by blast
  have m: "''A'' \<in> fst ` set (viewports hiddenEngine)" by code_simp
  from c m have d: "''A'' \<notin> needsRender (snd (renderFlaggedViewports hiddenEngine))"
    by blast
  from a b c d show ?thesis by blast
qed

text \<open>
  Claim C2 as stated fails on the dirty set: the frame callback removes the skipped
  viewport from it.
\<close>

theorem skipped_viewport_leaves_dirty_set:
  "getViewport hiddenEngine ''A'' = Some hiddenViewport
   \<and> clientWidth (viewportCanvas hiddenViewport) = 0
   \<and> ''A'' \<in> needsRender hiddenEngine
   \<and> animationFrameSet hiddenEngine
   \<and> fst (renderFlaggedViewports hiddenEngine) = Inr ()
   \<and> ''A'' \<notin> needsRender (snd (renderFlaggedViewports hiddenEngine))"
  by code_simp

end
